theory Spec2Isabelle
  imports Main
begin

section \<open>Data model\<close>

text \<open>
  The development embeds \<^verbatim>\<open>transpiler/functions.go\<close>: the lowering of a C function
  declaration and of a C return statement into the Go syntax tree. A Go \<^verbatim>\<open>error\<close> is
  its text; a call either returns a value, returns an error, or panics.
\<close>

type_synonym error = string

datatype 'a result = Ok 'a | Err error | Panic string

text \<open>
  The C syntax tree (package \<^verbatim>\<open>ast\<close>), as far as this file looks into it: a function
  declaration has a name, the prototype text and children; among the children the code
  tells apart compound statements and parameter declarations (name, C type) by a type
  switch. Every other node kind is opaque here.
\<close>

datatype node =
    CompoundStmt "node list"
  | ParmVarDecl string string
  | OtherNode string "node list"

record FunctionDecl =
  Name :: string
  Type :: string
  Children :: "node list"

record ReturnStmtNode =
  Children_ret :: "node list"

text \<open>
  The Go syntax tree (package \<^verbatim>\<open>go/ast\<close>), as far as this file builds it. A
  \<^verbatim>\<open>BlockStmt\<close> is the list of its statements; a pointer that may be nil is an option.
\<close>

datatype token = token_INT | token_STRING | token_ASSIGN | token_DEFINE

datatype expr =
    Ident string
  | BasicLit token string
  | BinaryExpr expr token expr
  | CallExpr expr "expr list"
  | OtherExpr string

datatype stmt =
    ExprStmt expr
  | ReturnStmt "expr list"
  | RangeStmt expr expr token expr "stmt list"
  | OtherStmt string

record Field =
  Names :: "expr list"
  Type_field :: expr

record FuncDecl =
  Name_go :: expr
  Params :: "Field list"
  Results :: "Field list"
  Body :: "stmt list option"

text \<open>The registered signature of a function (\<^verbatim>\<open>program.FunctionDefinition\<close>).\<close>

record FunctionDefinition =
  Name_sig :: string
  ReturnType :: string
  ArgumentTypes :: "string list"
  Substitution :: string

text \<open>
  The state the code works on: the fields of \<^verbatim>\<open>*program.Program\<close> it reads or writes
  (\<open>Function\<close>, \<open>Verbose\<close>, \<open>Decls\<close> for \<^verbatim>\<open>p.File.Decls\<close>, the import list and the
  collected messages), and the two pieces of process-wide state beside it: the function
  registry of package \<^verbatim>\<open>program\<close> and the standard output.
\<close>

record Program =
  Function :: "FunctionDecl option"
  Verbose :: bool
  Decls :: "FuncDecl list"
  Imports :: "string list"
  messages :: "string list"
  functionDefinitions :: "string \<rightharpoonup> FunctionDefinition"
  stdout :: "string list"

text \<open>
  The lowerers and the type resolver that this file calls live in other files and
  packages. They are parameters of the model: each takes the program state and gives it
  back, since each receives \<^verbatim>\<open>p\<close>. The block and expression lowerers return a value or
  an error; \<^verbatim>\<open>ResolveType\<close> and \<^verbatim>\<open>CastExpr\<close> return a value together with an
  optional error, and the code uses the value in both cases. A block lowering that
  returns no error is taken to return a block, not a nil pointer, and a collaborator is
  taken to return: only the panics raised in this file are modelled.
\<close>

record collaborators =
  transpileToBlockStmt :: "node \<Rightarrow> Program \<Rightarrow> (error + stmt list) \<times> Program"
  transpileToExpr ::
    "node \<Rightarrow> Program \<Rightarrow> (error + expr \<times> string \<times> stmt list \<times> stmt list) \<times> Program"
  ResolveType :: "string \<Rightarrow> Program \<Rightarrow> (string \<times> error option) \<times> Program"
  CastExpr :: "expr \<Rightarrow> string \<Rightarrow> string \<Rightarrow> Program \<Rightarrow> (expr \<times> error option) \<times> Program"

section \<open>Helpers of other packages\<close>

text \<open>
  Modelled from the spec: the function registry (package \<^verbatim>\<open>program\<close>) is not part of
  the file. The spec gives it as a mapping from a function name to one signature, with a
  lookup that returns the signature or signals absence. The spec's test "if and only if
  no signature is currently registered" is the guard the declaration lowering itself
  makes before it calls \<^verbatim>\<open>AddFunctionDefinition\<close>, so the latter is the plain store.
\<close>

definition GetFunctionDefinition :: "string \<Rightarrow> Program \<Rightarrow> FunctionDefinition option" where
  "GetFunctionDefinition name s = functionDefinitions s name"

definition AddFunctionDefinition :: "FunctionDefinition \<Rightarrow> Program \<Rightarrow> Program" where
  "AddFunctionDefinition f s =
     s\<lparr>functionDefinitions := (functionDefinitions s)(Name_sig f \<mapsto> f)\<rparr>"

text \<open>
  Modelled from the spec: diagnostic collection is not part of the file. A warning text
  is built from an optional error and the kind of the node it is about, and is empty
  when there is no error; \<^verbatim>\<open>AddMessage\<close> collects a text unless it is empty and tells
  whether it collected it.
\<close>

definition GenerateWarningMessage :: "error option \<Rightarrow> string \<Rightarrow> string" where
  "GenerateWarningMessage e kind =
     (case e of
        None \<Rightarrow> ''''
      | Some msg \<Rightarrow> ''// Warning ('' @ kind @ ''): '' @ msg)"

definition AddMessage :: "string \<Rightarrow> Program \<Rightarrow> bool \<times> Program" where
  "AddMessage message s =
     (if message = '''' then (False, s)
      else (True, s\<lparr>messages := messages s @ [message]\<rparr>))"

text \<open>
  Modelled from the spec: import-list management is not part of the file. A module is
  recorded as required by the program's import list, once.
\<close>

definition AddImport :: "string \<Rightarrow> Program \<Rightarrow> Program" where
  "AddImport importPath s =
     (if importPath \<in> set (Imports s) then s
      else s\<lparr>Imports := Imports s @ [importPath]\<rparr>)"

text \<open>
  Modelled from the spec: the node construction helpers of package \<^verbatim>\<open>util\<close> and
  \<^verbatim>\<open>goast.NewIdent\<close> build the node their name says from their arguments.
\<close>

definition NewIdent :: "string \<Rightarrow> expr" where
  "NewIdent name = Ident name"

definition NewCallExpr :: "string \<Rightarrow> expr list \<Rightarrow> expr" where
  "NewCallExpr functionName args = CallExpr (NewIdent functionName) args"

definition NewExprStmt :: "expr \<Rightarrow> stmt" where
  "NewExprStmt e = ExprStmt e"

definition NewBinaryExpr :: "expr \<Rightarrow> token \<Rightarrow> expr \<Rightarrow> expr" where
  "NewBinaryExpr left operator right = BinaryExpr left operator right"

definition NewStringLit :: "string \<Rightarrow> expr" where
  "NewStringLit v = BasicLit token_STRING v"

text \<open>
  The two functions of Go's \<^verbatim>\<open>strings\<close> package that return-type extraction uses, on
  ASCII text (C type spellings): \<open>SplitHead sep s\<close> is \<^verbatim>\<open>strings.Split(s, sep)[0]\<close> for
  a one-character separator, the text before its first occurrence; \<open>TrimSpace\<close> drops
  the white space at both ends.
\<close>

definition isSpace :: "char \<Rightarrow> bool" where
  "isSpace ch \<longleftrightarrow>
     ch = CHR 0x09 \<or> ch = CHR 0x0A \<or> ch = CHR 0x0B \<or> ch = CHR 0x0C \<or> ch = CHR 0x0D \<or>
     ch = CHR '' ''"

definition TrimSpace :: "string \<Rightarrow> string" where
  "TrimSpace s = rev (dropWhile isSpace (rev (dropWhile isSpace s)))"

definition SplitHead :: "char \<Rightarrow> string \<Rightarrow> string" where
  "SplitHead sep s = takeWhile (\<lambda>ch. ch \<noteq> sep) s"

fun Join :: "string list \<Rightarrow> string \<Rightarrow> string" where
  "Join [] sep = ''''"
| "Join [x] sep = x"
| "Join (x # y # rest) sep = x @ sep @ Join (y # rest) sep"

definition nilDereference :: string where
  "nilDereference = ''runtime error: invalid memory address or nil pointer dereference''"

definition indexOutOfRange :: string where
  "indexOutOfRange = ''runtime error: index out of range''"

section \<open>The functions of the file\<close>

text \<open>\<^verbatim>\<open>getFunctionBody\<close>: the first child that is a compound statement, or nil.\<close>

fun getFunctionBody_range :: "node list \<Rightarrow> node option" where
  "getFunctionBody_range [] = None"
| "getFunctionBody_range (CompoundStmt cs # rest) = Some (CompoundStmt cs)"
| "getFunctionBody_range (c # rest) = getFunctionBody_range rest"

definition getFunctionBody :: "FunctionDecl \<Rightarrow> node option" where
  "getFunctionBody n = getFunctionBody_range (Children n)"

text \<open>
  \<^verbatim>\<open>getFunctionReturnType\<close>: the text before the first opening parenthesis of the
  prototype, trimmed; the function panics when nothing is left.
\<close>

definition getFunctionReturnType :: "string \<Rightarrow> string result" where
  "getFunctionReturnType f =
     (let returnType = TrimSpace (SplitHead (CHR ''('') f) in
      if returnType = '''' then Panic (''unable to extract the return type from: '' @ f)
      else Ok returnType)"

text \<open>\<^verbatim>\<open>getFunctionArgumentTypes\<close>: the C types of the parameter declarations, in order.\<close>

fun getFunctionArgumentTypes_range :: "node list \<Rightarrow> string list \<Rightarrow> string list" where
  "getFunctionArgumentTypes_range [] r = r"
| "getFunctionArgumentTypes_range (ParmVarDecl name ty # rest) r =
     getFunctionArgumentTypes_range rest (r @ [ty])"
| "getFunctionArgumentTypes_range (c # rest) r = getFunctionArgumentTypes_range rest r"

definition getFunctionArgumentTypes :: "FunctionDecl \<Rightarrow> string list" where
  "getFunctionArgumentTypes f = getFunctionArgumentTypes_range (Children f) []"

text \<open>
  \<^verbatim>\<open>getFieldList\<close>: one field (name, resolved type) for every parameter declaration,
  in order. A resolution error becomes a collected warning. The function always returns
  a nil error.
\<close>

fun getFieldList_range ::
  "collaborators \<Rightarrow> node list \<Rightarrow> Field list \<Rightarrow> Program \<Rightarrow> Field list \<times> Program" where
  "getFieldList_range c [] r s = (r, s)"
| "getFieldList_range c (ParmVarDecl name ty # rest) r s =
     (case ResolveType c ty s of
        ((t, err), s1) \<Rightarrow>
          (case AddMessage (GenerateWarningMessage err ''FunctionDecl'') s1 of
             (added, s2) \<Rightarrow>
               getFieldList_range c rest
                 (r @ [\<lparr>Names = [NewIdent name], Type_field = NewIdent t\<rparr>]) s2))"
| "getFieldList_range c (n # rest) r s = getFieldList_range c rest r s"

definition getFieldList ::
  "collaborators \<Rightarrow> FunctionDecl \<Rightarrow> Program \<Rightarrow> (Field list \<times> error option) \<times> Program" where
  "getFieldList c f s =
     (case getFieldList_range c (Children f) [] s of (r, s1) \<Rightarrow> ((r, None), s1))"

text \<open>
  The registration step of \<^verbatim>\<open>transpileFunctionDecl\<close> (the block under "Always register
  the new function"): a name that has no signature yet gets the one read off the
  declaration, with an empty substitution. Return-type extraction may panic.
\<close>

definition registerFunctionDecl :: "FunctionDecl \<Rightarrow> Program \<Rightarrow> Program result" where
  "registerFunctionDecl n s =
     (if GetFunctionDefinition (Name n) s = None then
        (case getFunctionReturnType (Type n) of
           Panic m \<Rightarrow> Panic m
         | Err e \<Rightarrow> Err e
         | Ok returnType \<Rightarrow>
             Ok (AddFunctionDefinition
                   \<lparr>Name_sig = Name n, ReturnType = returnType,
                    ArgumentTypes = getFunctionArgumentTypes n, Substitution = ''''\<rparr> s))
      else Ok s)"

text \<open>The names that \<^verbatim>\<open>transpileFunctionDecl\<close> compares the declaration's name with.\<close>

definition ignoredFunction :: "string \<Rightarrow> bool" where
  "ignoredFunction name \<longleftrightarrow>
     name = ''__istype'' \<or> name = ''__isctype'' \<or> name = ''__wcwidth'' \<or>
     name = ''__sputc'' \<or> name = ''__inline_signbitf'' \<or> name = ''__inline_signbitd'' \<or>
     name = ''__inline_signbitl''"

text \<open>
  The statements placed at the top of \<^verbatim>\<open>main\<close> (the block that fills
  \<^verbatim>\<open>prependStmtsInMain\<close>): the call of \<^verbatim>\<open>__init\<close>, then, when there is a first field,
  the import of \<^verbatim>\<open>os\<close> and the definition of its name, then, when there is a second
  field, the definition of its name and the loop that fills it. Reading \<^verbatim>\<open>Names[0]\<close>
  of a field without names panics.
\<close>

definition argvLoop :: "expr \<Rightarrow> stmt" where
  "argvLoop argv =
     RangeStmt (NewIdent ''_'') (NewIdent ''argvSingle'') token_DEFINE (NewIdent ''os.Args'')
       [ExprStmt
          (NewBinaryExpr argv token_ASSIGN
             (NewCallExpr ''append'' [argv, NewIdent ''[]byte(argvSingle)'']))]"

definition prependStmtsInMain :: "Field list \<Rightarrow> Program \<Rightarrow> stmt list result \<times> Program" where
  "prependStmtsInMain fieldList s =
     (let stmts0 = [NewExprStmt (NewCallExpr ''__init'' [])] in
      case fieldList of
        [] \<Rightarrow> (Ok stmts0, s)
      | field0 # others \<Rightarrow>
          (let s1 = AddImport ''os'' s in
           case Names field0 of
             [] \<Rightarrow> (Panic indexOutOfRange, s1)
           | argc # _ \<Rightarrow>
               (let stmts1 =
                      stmts0 @
                      [ExprStmt (NewBinaryExpr argc token_DEFINE (NewIdent ''len(os.Args)''))]
                in
                case others of
                  [] \<Rightarrow> (Ok stmts1, s1)
                | field1 # _ \<Rightarrow>
                    (case Names field1 of
                       [] \<Rightarrow> (Panic indexOutOfRange, s1)
                     | argv # _ \<Rightarrow>
                         (Ok (stmts1 @
                              [ExprStmt
                                 (NewBinaryExpr argv token_DEFINE (NewIdent ''[][]byte{}'')),
                               argvLoop argv]),
                          s1)))))"

text \<open>
  The last block of \<^verbatim>\<open>transpileFunctionDecl\<close>, entered when the declaration has a body:
  the optional comment on the standard output, the parameter list, the resolved return
  type, the rewriting of \<^verbatim>\<open>main\<close>, and the definition appended to the declarations of
  the output file. \<open>f\<close> is the pointer the registry gave, \<open>body\<close> the lowered body.
\<close>

definition emitFuncDecl ::
  "collaborators \<Rightarrow> FunctionDecl \<Rightarrow> FunctionDefinition option \<Rightarrow> stmt list option \<Rightarrow>
   Program \<Rightarrow> unit result \<times> Program" where
  "emitFuncDecl c n f body s =
     (case (if Verbose s then
              (case f of
                 None \<Rightarrow> (Panic nilDereference, s)
               | Some fd \<Rightarrow>
                   (Ok (),
                    s\<lparr>stdout := stdout s @
                       [''// Function: '' @ Name_sig fd @ ''('' @
                        Join (ArgumentTypes fd) '', '' @ '')'' @ [CHR 0x0A]]\<rparr>))
            else (Ok (), s)) of
        (Panic m, s1) \<Rightarrow> (Panic m, s1)
      | (Err e, s1) \<Rightarrow> (Err e, s1)
      | (Ok u, s1) \<Rightarrow>
          (case getFieldList c n s1 of
             ((fieldList, Some e), s2) \<Rightarrow> (Err e, s2)
           | ((fieldList, None), s2) \<Rightarrow>
               (case f of
                  None \<Rightarrow> (Panic nilDereference, s2)
                | Some fd \<Rightarrow>
                    (case ResolveType c (ReturnType fd) s2 of
                       ((t, err), s3) \<Rightarrow>
                         (case AddMessage (GenerateWarningMessage err ''FunctionDecl'') s3 of
                            (added, s4) \<Rightarrow>
                              (let returnTypes = [\<lparr>Names = [], Type_field = NewIdent t\<rparr>] in
                               if (case Function s4 of
                                     None \<Rightarrow> False
                                   | Some fn \<Rightarrow> Name fn = ''main'')
                               then
                                 (case prependStmtsInMain fieldList s4 of
                                    (Panic m, s5) \<Rightarrow> (Panic m, s5)
                                  | (Err e, s5) \<Rightarrow> (Err e, s5)
                                  | (Ok stmts, s5) \<Rightarrow>
                                      (case body of
                                         None \<Rightarrow> (Panic nilDereference, s5)
                                       | Some blk \<Rightarrow>
                                           (Ok (),
                                            s5\<lparr>Decls := Decls s5 @
                                               [\<lparr>Name_go = NewIdent (Name n), Params = [],
                                                 Results = [], Body = Some (stmts @ blk)\<rparr>]\<rparr>)))
                               else
                                 (Ok (),
                                  s4\<lparr>Decls := Decls s4 @
                                     [\<lparr>Name_go = NewIdent (Name n), Params = fieldList,
                                       Results = returnTypes, Body = body\<rparr>]\<rparr>)))))))"

text \<open>
  \<^verbatim>\<open>transpileFunctionDecl\<close> after the active function is set and before the deferred
  reset runs: registration, the early return for a substituted function, the lowering
  of the body, the early return for an ignored name, and the emission.
\<close>

definition transpileFunctionDecl_steps ::
  "collaborators \<Rightarrow> FunctionDecl \<Rightarrow> Program \<Rightarrow> unit result \<times> Program" where
  "transpileFunctionDecl_steps c n s =
     (case registerFunctionDecl n s of
        Panic m \<Rightarrow> (Panic m, s)
      | Err e \<Rightarrow> (Err e, s)
      | Ok s0 \<Rightarrow>
          (let f = GetFunctionDefinition (Name n) s0 in
           if (case f of None \<Rightarrow> False | Some fd \<Rightarrow> Substitution fd \<noteq> '''') then (Ok (), s0)
           else
             (let functionBody = getFunctionBody n in
              case (case functionBody of
                      None \<Rightarrow> (Inr None, s0)
                    | Some b \<Rightarrow>
                        (case transpileToBlockStmt c b s0 of
                           (Inl e, s1) \<Rightarrow> (Inl e, s1)
                         | (Inr blk, s1) \<Rightarrow> (Inr (Some blk), s1))) of
                (Inl e, s1) \<Rightarrow> (Err e, s1)
              | (Inr body, s1) \<Rightarrow>
                  if ignoredFunction (Name n) then (Ok (), s1)
                  else if functionBody \<noteq> None then emitFuncDecl c n f body s1
                  else (Ok (), s1))))"

text \<open>
  \<^verbatim>\<open>transpileFunctionDecl\<close>: the declaration becomes the active function, the steps
  run, and the deferred function resets the active function however the steps ended.
\<close>

definition transpileFunctionDecl ::
  "collaborators \<Rightarrow> FunctionDecl \<Rightarrow> Program \<Rightarrow> unit result \<times> Program" where
  "transpileFunctionDecl c n s =
     (case transpileFunctionDecl_steps c n (s\<lparr>Function := Some n\<rparr>) of
        (r, s1) \<Rightarrow> (r, s1\<lparr>Function := None\<rparr>))"

text \<open>
  \<^verbatim>\<open>transpileReturnStmt\<close>. Without a child the result is a bare return. Otherwise the
  child is lowered, the value is cast to the return type registered for the active
  function (a failed cast becomes a warning and the literal \<^verbatim>\<open>nil\<close>), and inside
  \<^verbatim>\<open>main\<close> the return becomes a call of \<^verbatim>\<open>os.Exit\<close> unless the lowered expression is
  a literal with the value \<^verbatim>\<open>0\<close>. Reading the name of a nil active function, or the
  return type of an unregistered function, panics.
\<close>

definition transpileReturnStmt ::
  "collaborators \<Rightarrow> ReturnStmtNode \<Rightarrow> Program \<Rightarrow>
   (stmt \<times> stmt list \<times> stmt list) result \<times> Program" where
  "transpileReturnStmt c n s =
     (case Children_ret n of
        [] \<Rightarrow> (Ok (ReturnStmt [], [], []), s)
      | child # _ \<Rightarrow>
          (case transpileToExpr c child s of
             (Inl err, s1) \<Rightarrow> (Err err, s1)
           | (Inr (e, eType, preStmts, postStmts), s1) \<Rightarrow>
               (case Function s1 of
                  None \<Rightarrow> (Panic nilDereference, s1)
                | Some fn \<Rightarrow>
                    (case GetFunctionDefinition (Name fn) s1 of
                       None \<Rightarrow> (Panic nilDereference, s1)
                     | Some f \<Rightarrow>
                         (case CastExpr c e eType (ReturnType f) s1 of
                            ((t0, err), s2) \<Rightarrow>
                              (case AddMessage (GenerateWarningMessage err ''ReturnStmt'') s2 of
                                 (added, s3) \<Rightarrow>
                                   (let t = (if added then NewStringLit ''nil'' else t0);
                                        results = [t]
                                    in
                                    if (case Function s3 of
                                          None \<Rightarrow> False
                                        | Some fn' \<Rightarrow> Name fn' = ''main'')
                                    then
                                      (case e of
                                         BasicLit kind v \<Rightarrow>
                                           if v \<noteq> ''0'' then
                                             (Ok (NewExprStmt (NewCallExpr ''os.Exit'' results),
                                                  preStmts, postStmts),
                                              AddImport ''os'' s3)
                                           else (Ok (ReturnStmt [], preStmts, postStmts), s3)
                                       | _ \<Rightarrow>
                                           (Ok (NewExprStmt (NewCallExpr ''os.Exit'' results),
                                                preStmts, postStmts),
                                            AddImport ''os'' s3))
                                    else (Ok (ReturnStmt results, preStmts, postStmts), s3))))))))"

section \<open>Notions used to state the properties\<close>

text \<open>
  A sequence of declaration lowerings: the state after lowering each declaration of a
  list in turn, whatever each lowering returned. It passes through every state that a
  run of the driver passes through, and goes on where a run would have stopped.
\<close>

fun transpileFunctionDecls :: "collaborators \<Rightarrow> FunctionDecl list \<Rightarrow> Program \<Rightarrow> Program" where
  "transpileFunctionDecls c [] s = s"
| "transpileFunctionDecls c (n # ns) s =
     transpileFunctionDecls c ns (snd (transpileFunctionDecl c n s))"

text \<open>
  Modelled from the spec: the driver that calls the declaration lowering is not part of
  the file. The spec gives the run as single-threaded, one declaration at a time in the
  order of the source; an error that a declaration lowering returns is surfaced to the
  driver and does not abort the lowering of the other declarations; a fatal error
  aborts the whole compilation. So a run either completes, with the errors that were
  surfaced, or is aborted by the first panic, and then lowers no further declaration.
\<close>

datatype run_outcome = Completed "error list" | Aborted string

fun transpileRun ::
  "collaborators \<Rightarrow> FunctionDecl list \<Rightarrow> Program \<Rightarrow> run_outcome \<times> Program" where
  "transpileRun c [] s = (Completed [], s)"
| "transpileRun c (n # ns) s =
     (case transpileFunctionDecl c n s of
        (Panic m, s1) \<Rightarrow> (Aborted m, s1)
      | (Err e, s1) \<Rightarrow>
          (case transpileRun c ns s1 of
             (Completed es, s2) \<Rightarrow> (Completed (e # es), s2)
           | (Aborted m, s2) \<Rightarrow> (Aborted m, s2))
      | (Ok u, s1) \<Rightarrow> transpileRun c ns s1)"

text \<open>The names of the declared parameters of a declaration, in order.\<close>

fun parameterNames :: "node list \<Rightarrow> string list" where
  "parameterNames [] = []"
| "parameterNames (ParmVarDecl name ty # rest) = name # parameterNames rest"
| "parameterNames (c # rest) = parameterNames rest"

text \<open>
  The spec's \<^verbatim>\<open>hasSubstitution\<close>: a signature is registered for the name and its
  substitution is not empty.
\<close>

definition hasSubstitution :: "string \<Rightarrow> Program \<Rightarrow> bool" where
  "hasSubstitution name s =
     (case functionDefinitions s name of None \<Rightarrow> False | Some f \<Rightarrow> Substitution f \<noteq> '''')"

text \<open>
  The state after the comment that \<^verbatim>\<open>transpileFunctionDecl\<close> prints in verbose mode for
  a registered signature.
\<close>

definition functionComment :: "FunctionDefinition \<Rightarrow> Program \<Rightarrow> Program" where
  "functionComment fd s =
     (if Verbose s then
        s\<lparr>stdout := stdout s @
           [''// Function: '' @ Name_sig fd @ ''('' @ Join (ArgumentTypes fd) '', '' @ '')'' @
            [CHR 0x0A]]\<rparr>
      else s)"

text \<open>
  What the properties ask of the collaborators: that they leave the active function
  alone, and that they leave the registry alone. Only \<^verbatim>\<open>transpileFunctionDecl\<close> writes
  either in the file.
\<close>

definition keepsFunction :: "collaborators \<Rightarrow> bool" where
  "keepsFunction c \<longleftrightarrow>
     (\<forall>b s. Function (snd (transpileToBlockStmt c b s)) = Function s) \<and>
     (\<forall>e s. Function (snd (transpileToExpr c e s)) = Function s) \<and>
     (\<forall>t s. Function (snd (ResolveType c t s)) = Function s) \<and>
     (\<forall>e a b s. Function (snd (CastExpr c e a b s)) = Function s)"

definition keepsRegistry :: "collaborators \<Rightarrow> bool" where
  "keepsRegistry c \<longleftrightarrow>
     (\<forall>b s. functionDefinitions (snd (transpileToBlockStmt c b s)) = functionDefinitions s) \<and>
     (\<forall>e s. functionDefinitions (snd (transpileToExpr c e s)) = functionDefinitions s) \<and>
     (\<forall>t s. functionDefinitions (snd (ResolveType c t s)) = functionDefinitions s) \<and>
     (\<forall>e a b s. functionDefinitions (snd (CastExpr c e a b s)) = functionDefinitions s)"

text \<open>
  Two sets of collaborators agree while \<open>n\<close> is active when the two that declaration
  lowering calls give the same answers in every state whose active function is \<open>n\<close>.
\<close>

definition agreeWhileActive :: "FunctionDecl \<Rightarrow> collaborators \<Rightarrow> collaborators \<Rightarrow> bool" where
  "agreeWhileActive n c c' \<longleftrightarrow>
     (\<forall>b s. Function s = Some n \<longrightarrow> transpileToBlockStmt c' b s = transpileToBlockStmt c b s) \<and>
     (\<forall>t s. Function s = Some n \<longrightarrow> ResolveType c' t s = ResolveType c t s)"

definition ascii :: "string \<Rightarrow> bool" where
  "ascii s \<longleftrightarrow> (\<forall>ch \<in> set s. \<not> digit7 ch)"

section \<open>Sample inputs\<close>

text \<open>
  Concrete collaborators and inputs on which the properties are instantiated. The sample
  block lowerer gives one statement for every body; the sample expression lowerer knows
  the integer literals \<^verbatim>\<open>0\<close> and \<^verbatim>\<open>1\<close> and takes every other node for a variable
  \<^verbatim>\<open>x\<close> of type \<^verbatim>\<open>int\<close>; the sample resolver knows \<^verbatim>\<open>int\<close>, \<^verbatim>\<open>char **\<close> and
  \<^verbatim>\<open>void\<close>; the sample caster converts between \<^verbatim>\<open>int\<close> and \<^verbatim>\<open>float\<close> only.
\<close>

definition sampleBlock :: "node \<Rightarrow> Program \<Rightarrow> (error + stmt list) \<times> Program" where
  "sampleBlock b s = (Inr [OtherStmt ''work()''], s)"

definition sampleExpr ::
  "node \<Rightarrow> Program \<Rightarrow> (error + expr \<times> string \<times> stmt list \<times> stmt list) \<times> Program" where
  "sampleExpr e s =
     (case e of
        OtherNode kind cs \<Rightarrow>
          if kind = ''IntegerLiteral 0'' then (Inr (BasicLit token_INT ''0'', ''int'', [], []), s)
          else if kind = ''IntegerLiteral 1'' then
            (Inr (BasicLit token_INT ''1'', ''int'', [], []), s)
          else (Inr (Ident ''x'', ''int'', [OtherStmt ''before''], [OtherStmt ''after'']), s)
      | _ \<Rightarrow> (Inl ''cannot transpile expression'', s))"

definition sampleResolve :: "string \<Rightarrow> Program \<Rightarrow> (string \<times> error option) \<times> Program" where
  "sampleResolve t s =
     (if t = ''int'' then ((''int'', None), s)
      else if t = ''char **'' then ((''[][]byte'', None), s)
      else if t = ''void'' then (('''', None), s)
      else ((''interface{}'', Some (''cannot resolve type '' @ t)), s))"

definition sampleCast ::
  "expr \<Rightarrow> string \<Rightarrow> string \<Rightarrow> Program \<Rightarrow> (expr \<times> error option) \<times> Program" where
  "sampleCast e fromType toType s =
     (if fromType = toType then ((e, None), s)
      else if fromType = ''int'' \<and> toType = ''float'' then
        ((CallExpr (Ident ''float32'') [e], None), s)
      else ((e, Some (''cannot cast '' @ fromType @ '' to '' @ toType)), s))"

definition sampleCollaborators :: collaborators where
  "sampleCollaborators =
     \<lparr>transpileToBlockStmt = sampleBlock, transpileToExpr = sampleExpr,
      ResolveType = sampleResolve, CastExpr = sampleCast\<rparr>"

text \<open>A block lowerer that records a diagnostic and fails.\<close>

definition failingBlock :: "node \<Rightarrow> Program \<Rightarrow> (error + stmt list) \<times> Program" where
  "failingBlock b s =
     (Inl ''cannot transpile statement'',
      s\<lparr>messages := messages s @ [''// Warning: unsupported statement'']\<rparr>)"

definition failingCollaborators :: collaborators where
  "failingCollaborators =
     \<lparr>transpileToBlockStmt = failingBlock, transpileToExpr = sampleExpr,
      ResolveType = sampleResolve, CastExpr = sampleCast\<rparr>"

text \<open>
  Collaborators that answer as the samples while \<open>n\<close> is the active function and fail
  in every other state.
\<close>

definition onlyWhileActive :: "FunctionDecl \<Rightarrow> collaborators" where
  "onlyWhileActive n =
     \<lparr>transpileToBlockStmt =
        (\<lambda>b s. if Function s = Some n then sampleBlock b s else (Inl ''no active function'', s)),
      transpileToExpr = sampleExpr,
      ResolveType =
        (\<lambda>t s. if Function s = Some n then sampleResolve t s
               else (('''', Some ''no active function''), s)),
      CastExpr = sampleCast\<rparr>"

definition emptyProgram :: Program where
  "emptyProgram =
     \<lparr>Function = None, Verbose = False, Decls = [], Imports = [], messages = [],
      functionDefinitions = Map.empty, stdout = []\<rparr>"

text \<open>\<^verbatim>\<open>int main(int argc, char **argv) { ... }\<close>\<close>

definition mainDecl :: FunctionDecl where
  "mainDecl =
     \<lparr>Name = ''main'', Type = ''int (int, char **)'',
      Children = [ParmVarDecl ''argc'' ''int'', ParmVarDecl ''argv'' ''char **'',
                  CompoundStmt []]\<rparr>"

text \<open>\<^verbatim>\<open>void tick(int n) { ... }\<close>\<close>

definition tickDecl :: FunctionDecl where
  "tickDecl =
     \<lparr>Name = ''tick'', Type = ''void (int)'',
      Children = [ParmVarDecl ''n'' ''int'', CompoundStmt []]\<rparr>"

text \<open>\<^verbatim>\<open>int __istype(int c) { ... }\<close>, a name the declaration lowering ignores.\<close>

definition istypeDecl :: FunctionDecl where
  "istypeDecl =
     \<lparr>Name = ''__istype'', Type = ''int (int)'',
      Children = [ParmVarDecl ''c'' ''int'', CompoundStmt []]\<rparr>"

text \<open>A declaration of \<^verbatim>\<open>sqrt\<close> with a body, and a registry that substitutes it.\<close>

definition sqrtDecl :: FunctionDecl where
  "sqrtDecl =
     \<lparr>Name = ''sqrt'', Type = ''double (double)'',
      Children = [ParmVarDecl ''x'' ''double'', CompoundStmt []]\<rparr>"

definition sqrtSignature :: FunctionDefinition where
  "sqrtSignature =
     \<lparr>Name_sig = ''sqrt'', ReturnType = ''double'', ArgumentTypes = [''double''],
      Substitution = ''math.Sqrt''\<rparr>"

definition programWithSqrt :: Program where
  "programWithSqrt = emptyProgram\<lparr>functionDefinitions := [''sqrt'' \<mapsto> sqrtSignature]\<rparr>"

text \<open>A second declaration of \<^verbatim>\<open>main\<close>, with another prototype and no body.\<close>

definition mainRedeclared :: FunctionDecl where
  "mainRedeclared = \<lparr>Name = ''main'', Type = ''float (void)'', Children = []\<rparr>"

text \<open>A declaration whose prototype text has nothing before the parenthesis.\<close>

definition malformedDecl :: FunctionDecl where
  "malformedDecl = \<lparr>Name = ''broken'', Type = '' (int)'', Children = [CompoundStmt []]\<rparr>"

text \<open>The state in which a return statement of \<^verbatim>\<open>main\<close> is lowered.\<close>

definition mainSignature :: FunctionDefinition where
  "mainSignature =
     \<lparr>Name_sig = ''main'', ReturnType = ''int'', ArgumentTypes = [''int'', ''char **''],
      Substitution = ''''\<rparr>"

definition programInMain :: Program where
  "programInMain =
     emptyProgram\<lparr>Function := Some mainDecl,
                  functionDefinitions := [''main'' \<mapsto> mainSignature]\<rparr>"

text \<open>The state in which a return statement of a function returning a structure is lowered.\<close>

definition pointDecl :: FunctionDecl where
  "pointDecl = \<lparr>Name = ''origin'', Type = ''struct point ()'', Children = [CompoundStmt []]\<rparr>"

definition pointSignature :: FunctionDefinition where
  "pointSignature =
     \<lparr>Name_sig = ''origin'', ReturnType = ''struct point'', ArgumentTypes = [],
      Substitution = ''''\<rparr>"

definition programInOrigin :: Program where
  "programInOrigin =
     emptyProgram\<lparr>Function := Some pointDecl,
                  functionDefinitions := [''origin'' \<mapsto> pointSignature]\<rparr>"

section \<open>Helper facts\<close>

lemma AddMessage_Function: "Function (snd (AddMessage m s)) = Function s"
  by (simp add: AddMessage_def)

lemma AddMessage_registry: "functionDefinitions (snd (AddMessage m s)) = functionDefinitions s"
  by (simp add: AddMessage_def)

lemma AddImport_Function: "Function (AddImport m s) = Function s"
  by (simp add: AddImport_def)

lemma AddImport_registry: "functionDefinitions (AddImport m s) = functionDefinitions s"
  by (simp add: AddImport_def)

lemma registerFunctionDecl_registered:
  assumes "functionDefinitions s (Name n) = Some f"
  shows "registerFunctionDecl n s = Ok s"
  using assms by (simp add: registerFunctionDecl_def GetFunctionDefinition_def)

lemma AddMessage_warning_added:
  "fst (AddMessage (GenerateWarningMessage err kind) s) \<longleftrightarrow> err \<noteq> None"
  by (cases err) (simp_all add: AddMessage_def GenerateWarningMessage_def)

lemma AddMessage_Imports: "Imports (snd (AddMessage m s)) = Imports s"
  by (simp add: AddMessage_def)

lemma AddMessage_warning_messages:
  "messages (snd (AddMessage (GenerateWarningMessage (Some problem) kind) s)) =
     messages s @ [GenerateWarningMessage (Some problem) kind]"
  by (simp add: AddMessage_def GenerateWarningMessage_def)

lemma AddImport_messages: "messages (AddImport m s) = messages s"
  by (simp add: AddImport_def)

lemma registerFunctionDecl_frame:
  assumes "registerFunctionDecl n s = Ok s0"
  shows "Function s0 = Function s" and "Decls s0 = Decls s" and "messages s0 = messages s"
    and "Imports s0 = Imports s" and "Verbose s0 = Verbose s" and "stdout s0 = stdout s"
  using assms
  by (auto simp add: registerFunctionDecl_def AddFunctionDefinition_def
        split: if_splits result.splits)

lemma registerFunctionDecl_lookup:
  assumes "registerFunctionDecl n s = Ok s0"
  shows "\<exists>f. functionDefinitions s0 (Name n) = Some f"
  using assms
  by (auto simp add: registerFunctionDecl_def AddFunctionDefinition_def GetFunctionDefinition_def
        split: if_splits result.splits)

lemma registerFunctionDecl_keeps_registered:
  assumes "registerFunctionDecl n s = Ok s0" and "functionDefinitions s name = Some f"
  shows "functionDefinitions s0 name = Some f"
  using assms
  by (auto simp add: registerFunctionDecl_def AddFunctionDefinition_def GetFunctionDefinition_def
        split: if_splits result.splits)

lemma registerFunctionDecl_hasSubstitution:
  assumes "registerFunctionDecl n s = Ok s0" and "\<not> hasSubstitution (Name n) s"
  shows "\<not> hasSubstitution (Name n) s0"
  using assms
  by (auto simp add: registerFunctionDecl_def AddFunctionDefinition_def GetFunctionDefinition_def
        hasSubstitution_def split: if_splits result.splits option.splits)

lemma keepsFunction_ResolveType:
  assumes "keepsFunction c" and "ResolveType c t s = (r, s1)"
  shows "Function s1 = Function s"
proof -
  have "Function (snd (ResolveType c t s)) = Function s"
    using assms(1) by (simp add: keepsFunction_def)
  then show ?thesis
    using assms(2) by simp
qed

lemma keepsFunction_transpileToBlockStmt:
  assumes "keepsFunction c" and "transpileToBlockStmt c b s = (r, s1)"
  shows "Function s1 = Function s"
proof -
  have "Function (snd (transpileToBlockStmt c b s)) = Function s"
    using assms(1) by (simp add: keepsFunction_def)
  then show ?thesis
    using assms(2) by simp
qed

lemma getFieldList_range_Function:
  assumes "keepsFunction c"
  shows "Function (snd (getFieldList_range c cs r s)) = Function s"
  using assms
proof (induction c cs r s rule: getFieldList_range.induct)
  case (2 c name ty rest r s)
  obtain t err s1 where res: "ResolveType c ty s = ((t, err), s1)"
    by (metis prod.exhaust)
  obtain added s2 where am: "AddMessage (GenerateWarningMessage err ''FunctionDecl'') s1 = (added, s2)"
    by (metis prod.exhaust)
  have "Function s1 = Function s"
    using "2.prems" res by (rule keepsFunction_ResolveType)
  moreover have "Function s2 = Function s1"
    using AddMessage_Function [of "GenerateWarningMessage err ''FunctionDecl''" s1] am by simp
  moreover have "Function (snd (getFieldList_range c rest
      (r @ [\<lparr>Names = [NewIdent name], Type_field = NewIdent t\<rparr>]) s2)) = Function s2"
    using "2.IH" [OF res [symmetric] refl am [symmetric]] "2.prems" by simp
  ultimately show ?case
    using res am by simp
qed simp_all

lemma getFieldList_range_Names:
  "map Names (fst (getFieldList_range c cs r s)) =
     map Names r @ map (\<lambda>name. [Ident name]) (parameterNames cs)"
proof (induction c cs r s rule: getFieldList_range.induct)
  case (2 c name ty rest r s)
  obtain t err s1 where res: "ResolveType c ty s = ((t, err), s1)"
    by (metis prod.exhaust)
  obtain added s2 where am: "AddMessage (GenerateWarningMessage err ''FunctionDecl'') s1 = (added, s2)"
    by (metis prod.exhaust)
  show ?case
    using "2.IH" [OF res [symmetric] refl am [symmetric]] res am
    by (simp add: NewIdent_def)
qed simp_all

lemma prependStmtsInMain_named:
  assumes "\<forall>field \<in> set fieldList. Names field \<noteq> []"
  shows "\<exists>stmts. prependStmtsInMain fieldList s =
           (Ok stmts, if fieldList = [] then s else AddImport ''os'' s)"
proof (cases fieldList)
  case Nil
  then show ?thesis
    by (simp add: prependStmtsInMain_def)
next
  case (Cons field0 others)
  then obtain argc names0 where n0: "Names field0 = argc # names0"
    using assms by (cases "Names field0") auto
  show ?thesis
  proof (cases others)
    case Nil
    then show ?thesis
      using Cons n0 by (simp add: prependStmtsInMain_def)
  next
    case (Cons field1 others')
    then obtain argv names1 where "Names field1 = argv # names1"
      using assms \<open>fieldList = field0 # others\<close> by (cases "Names field1") auto
    then show ?thesis
      using Cons \<open>fieldList = field0 # others\<close> n0 by (simp add: prependStmtsInMain_def)
  qed
qed


section \<open>Return statements\<close>

text \<open>
  C7. A return node without a child expression is lowered to a bare return statement:
  no result values, no statements before or after it, no error, and the state is left
  as it was. Nothing is asked of the active function, so this holds inside \<^verbatim>\<open>main\<close>
  as in any other function.
\<close>

theorem bare_return:
  assumes "Children_ret n = []"
  shows "transpileReturnStmt c n s = (Ok (ReturnStmt [], [], []), s)"
  using assms by (simp add: transpileReturnStmt_def)

theorem bare_return_witness:
  "transpileReturnStmt sampleCollaborators \<lparr>Children_ret = []\<rparr> programInMain =
     (Ok (ReturnStmt [], [], []), programInMain)"
  using bare_return [of "\<lparr>Children_ret = []\<rparr>" sampleCollaborators programInMain] by simp

text \<open>
  The general shape of the lowering of a return statement with a child expression, once
  the expression is lowered: the value is the caster's, or the literal \<^verbatim>\<open>nil\<close> when the
  caster returned an error; the statement depends on the active function.
\<close>

lemma transpileReturnStmt_cast:
  assumes "Children_ret n = child # rest"
    and "transpileToExpr c child s = (Inr (e, eType, preStmts, postStmts), s1)"
    and "Function s1 = Some fn"
    and "functionDefinitions s1 (Name fn) = Some f"
    and "CastExpr c e eType (ReturnType f) s1 = ((t0, err), s2)"
    and "s3 = snd (AddMessage (GenerateWarningMessage err ''ReturnStmt'') s2)"
    and "t = (if err = None then t0 else NewStringLit ''nil'')"
  shows "transpileReturnStmt c n s =
     (if (case Function s2 of None \<Rightarrow> False | Some fn' \<Rightarrow> Name fn' = ''main'') then
        (if (\<exists>kind. e = BasicLit kind ''0'') then (Ok (ReturnStmt [], preStmts, postStmts), s3)
         else (Ok (ExprStmt (CallExpr (Ident ''os.Exit'') [t]), preStmts, postStmts),
               AddImport ''os'' s3))
      else (Ok (ReturnStmt [t], preStmts, postStmts), s3))"
proof -
  obtain added s3' where am: "AddMessage (GenerateWarningMessage err ''ReturnStmt'') s2 = (added, s3')"
    by (cases "AddMessage (GenerateWarningMessage err ''ReturnStmt'') s2")
  have added: "added \<longleftrightarrow> err \<noteq> None"
    using AddMessage_warning_added [of err "''ReturnStmt''" s2] am by simp
  have s3: "s3' = s3"
    using am assms(6) by simp
  have fn3: "Function s3 = Function s2"
    using assms(6) by (simp add: AddMessage_Function)
  show ?thesis
    using assms(1-5) am added s3 fn3 assms(7)
    by (cases e)
       (simp_all add: transpileReturnStmt_def GetFunctionDefinition_def NewExprStmt_def
          NewCallExpr_def NewIdent_def split: option.splits)
qed

text \<open>
  C1. A return statement with a child expression, lowered while the active function is
  \<^verbatim>\<open>main\<close> (when its name is read for the registry, and when it is tested after the
  cast). If the lowered expression is a literal whose value is \<^verbatim>\<open>0\<close>, the statement is a
  bare return and the import list is the one the caster left: no import is added.
  Otherwise (not a literal, or a literal with another value) the statement is the call of
  \<^verbatim>\<open>os.Exit\<close> with one argument, the cast value (the caster's result, or the literal
  \<^verbatim>\<open>nil\<close> that replaces it when the cast failed), and \<^verbatim>\<open>os\<close> is in the import list,
  appended unless it was there. The statements before and after are those of the
  expression lowering.
\<close>

theorem return_in_main:
  assumes "Children_ret n = child # rest"
    and "transpileToExpr c child s = (Inr (e, eType, preStmts, postStmts), s1)"
    and "Function s1 = Some fn" and "Name fn = ''main''"
    and "functionDefinitions s1 ''main'' = Some f"
    and "CastExpr c e eType (ReturnType f) s1 = ((t0, err), s2)"
    and "Function s2 = Some fn"
  shows "fst (transpileReturnStmt c n s) =
           Ok (if (\<exists>kind. e = BasicLit kind ''0'') then ReturnStmt []
               else ExprStmt (CallExpr (Ident ''os.Exit'')
                      [if err = None then t0 else NewStringLit ''nil'']),
               preStmts, postStmts) \<and>
         Imports (snd (transpileReturnStmt c n s)) =
           (if (\<exists>kind. e = BasicLit kind ''0'') \<or> ''os'' \<in> set (Imports s2) then Imports s2
            else Imports s2 @ [''os''])"
proof -
  have "functionDefinitions s1 (Name fn) = Some f"
    using assms(4,5) by simp
  from transpileReturnStmt_cast [OF assms(1,2,3) this assms(6) refl refl]
  show ?thesis
    using assms(4,7) by (simp add: AddImport_def AddMessage_Imports)
qed

theorem return_in_main_witness:
  "fst (transpileReturnStmt sampleCollaborators \<lparr>Children_ret = [OtherNode ''IntegerLiteral 0'' []]\<rparr>
          programInMain) = Ok (ReturnStmt [], [], []) \<and>
   Imports (snd (transpileReturnStmt sampleCollaborators
          \<lparr>Children_ret = [OtherNode ''IntegerLiteral 0'' []]\<rparr> programInMain)) = [] \<and>
   fst (transpileReturnStmt sampleCollaborators \<lparr>Children_ret = [OtherNode ''IntegerLiteral 1'' []]\<rparr>
          programInMain) =
     Ok (ExprStmt (CallExpr (Ident ''os.Exit'') [BasicLit token_INT ''1'']), [], []) \<and>
   Imports (snd (transpileReturnStmt sampleCollaborators
          \<lparr>Children_ret = [OtherNode ''IntegerLiteral 1'' []]\<rparr> programInMain)) = [''os''] \<and>
   fst (transpileReturnStmt sampleCollaborators \<lparr>Children_ret = [OtherNode ''DeclRefExpr'' []]\<rparr>
          programInMain) =
     Ok (ExprStmt (CallExpr (Ident ''os.Exit'') [Ident ''x'']),
         [OtherStmt ''before''], [OtherStmt ''after'']) \<and>
   Imports (snd (transpileReturnStmt sampleCollaborators
          \<lparr>Children_ret = [OtherNode ''DeclRefExpr'' []]\<rparr> programInMain)) = [''os'']"
proof -
  have fn: "Function programInMain = Some mainDecl" "Name mainDecl = ''main''"
    and f: "functionDefinitions programInMain ''main'' = Some mainSignature"
    and imps: "Imports programInMain = []"
    by (simp_all add: programInMain_def mainDecl_def emptyProgram_def)
  have rt: "ReturnType mainSignature = ''int''"
    by (simp add: mainSignature_def)
  have cast: "CastExpr sampleCollaborators e ''int'' (ReturnType mainSignature) programInMain =
                ((e, None), programInMain)" for e
    by (simp add: sampleCollaborators_def sampleCast_def rt)
  have zero: "transpileToExpr sampleCollaborators (OtherNode ''IntegerLiteral 0'' []) programInMain =
                (Inr (BasicLit token_INT ''0'', ''int'', [], []), programInMain)"
    and one: "transpileToExpr sampleCollaborators (OtherNode ''IntegerLiteral 1'' []) programInMain =
                (Inr (BasicLit token_INT ''1'', ''int'', [], []), programInMain)"
    and var: "transpileToExpr sampleCollaborators (OtherNode ''DeclRefExpr'' []) programInMain =
                (Inr (Ident ''x'', ''int'', [OtherStmt ''before''], [OtherStmt ''after'']),
                 programInMain)"
    by (simp_all add: sampleCollaborators_def sampleExpr_def)
  show ?thesis
    using return_in_main [OF _ zero fn f cast fn(1),
            of "\<lparr>Children_ret = [OtherNode ''IntegerLiteral 0'' []]\<rparr>" "[]"]
      return_in_main [OF _ one fn f cast fn(1),
            of "\<lparr>Children_ret = [OtherNode ''IntegerLiteral 1'' []]\<rparr>" "[]"]
      return_in_main [OF _ var fn f cast fn(1),
            of "\<lparr>Children_ret = [OtherNode ''DeclRefExpr'' []]\<rparr>" "[]"]
    by (simp add: imps)
qed

text \<open>
  C6. A return statement with a child expression whose cast to the registered return
  type of the active function fails. Lowering returns no error; the warning text, which
  is not empty, is appended to the collected messages; and the value is the literal
  \<^verbatim>\<open>nil\<close>: the statement returns it, or inside \<^verbatim>\<open>main\<close> passes it to \<^verbatim>\<open>os.Exit\<close>.
  (Inside \<^verbatim>\<open>main\<close> a literal \<^verbatim>\<open>0\<close> still gives the bare return, which carries no
  value.)
\<close>

theorem failed_cast_is_a_warning:
  assumes "Children_ret n = child # rest"
    and "transpileToExpr c child s = (Inr (e, eType, preStmts, postStmts), s1)"
    and "Function s1 = Some fn"
    and "functionDefinitions s1 (Name fn) = Some f"
    and "CastExpr c e eType (ReturnType f) s1 = ((t0, Some problem), s2)"
  shows "fst (transpileReturnStmt c n s) =
           Ok (if (case Function s2 of None \<Rightarrow> False | Some fn' \<Rightarrow> Name fn' = ''main'') then
                 (if (\<exists>kind. e = BasicLit kind ''0'') then ReturnStmt []
                  else ExprStmt (CallExpr (Ident ''os.Exit'') [NewStringLit ''nil'']))
               else ReturnStmt [NewStringLit ''nil''],
               preStmts, postStmts) \<and>
         messages (snd (transpileReturnStmt c n s)) =
           messages s2 @ [GenerateWarningMessage (Some problem) ''ReturnStmt''] \<and>
         GenerateWarningMessage (Some problem) ''ReturnStmt'' \<noteq> ''''"
proof -
  from transpileReturnStmt_cast [OF assms refl refl]
  show ?thesis
    by (simp add: AddMessage_warning_messages AddImport_messages)
       (simp add: GenerateWarningMessage_def)
qed

theorem failed_cast_is_a_warning_witness:
  "fst (transpileReturnStmt sampleCollaborators \<lparr>Children_ret = [OtherNode ''DeclRefExpr'' []]\<rparr>
          programInOrigin) =
     Ok (ReturnStmt [BasicLit token_STRING ''nil''], [OtherStmt ''before''], [OtherStmt ''after'']) \<and>
   messages (snd (transpileReturnStmt sampleCollaborators
          \<lparr>Children_ret = [OtherNode ''DeclRefExpr'' []]\<rparr> programInOrigin)) =
     [''// Warning (ReturnStmt): cannot cast int to struct point'']"
proof -
  have fn: "Function programInOrigin = Some pointDecl"
    and f: "functionDefinitions programInOrigin (Name pointDecl) = Some pointSignature"
    and msgs: "messages programInOrigin = []"
    by (simp_all add: programInOrigin_def pointDecl_def emptyProgram_def)
  have var: "transpileToExpr sampleCollaborators (OtherNode ''DeclRefExpr'' []) programInOrigin =
                (Inr (Ident ''x'', ''int'', [OtherStmt ''before''], [OtherStmt ''after'']),
                 programInOrigin)"
    by (simp add: sampleCollaborators_def sampleExpr_def)
  have cast: "CastExpr sampleCollaborators (Ident ''x'') ''int'' (ReturnType pointSignature)
                programInOrigin =
                ((Ident ''x'', Some ''cannot cast int to struct point''), programInOrigin)"
    by (simp add: sampleCollaborators_def sampleCast_def pointSignature_def)
  show ?thesis
    using failed_cast_is_a_warning [OF _ var fn f cast,
            of "\<lparr>Children_ret = [OtherNode ''DeclRefExpr'' []]\<rparr>" "[]"]
    by (simp add: fn msgs pointDecl_def NewStringLit_def GenerateWarningMessage_def)
qed

section \<open>Function declarations\<close>

text \<open>
  C5. When the signature registered for the declaration's name has a non-empty
  substitution, declaration lowering returns without an error and leaves the state as
  it was, the active function cleared: no definition is appended, and since the result
  does not depend on the collaborators nor on the children of the declaration, the body,
  if there is one, is not lowered.
\<close>

theorem substituted_function_not_lowered:
  assumes "functionDefinitions s (Name n) = Some f" and "Substitution f \<noteq> ''''"
  shows "transpileFunctionDecl c n s = (Ok (), s\<lparr>Function := None\<rparr>)"
proof -
  have reg: "registerFunctionDecl n (s\<lparr>Function := Some n\<rparr>) = Ok (s\<lparr>Function := Some n\<rparr>)"
    using assms(1) by (simp add: registerFunctionDecl_registered)
  have "transpileFunctionDecl_steps c n (s\<lparr>Function := Some n\<rparr>) =
          (Ok (), s\<lparr>Function := Some n\<rparr>)"
    using assms by (simp add: transpileFunctionDecl_steps_def reg GetFunctionDefinition_def)
  then show ?thesis
    by (simp add: transpileFunctionDecl_def)
qed

theorem substituted_function_not_lowered_witness:
  "transpileFunctionDecl failingCollaborators sqrtDecl programWithSqrt = (Ok (), programWithSqrt)"
proof -
  have "functionDefinitions programWithSqrt (Name sqrtDecl) = Some sqrtSignature"
    by (simp add: programWithSqrt_def sqrtDecl_def)
  moreover have "Substitution sqrtSignature \<noteq> ''''"
    by (simp add: sqrtSignature_def)
  ultimately have
    "transpileFunctionDecl failingCollaborators sqrtDecl programWithSqrt =
       (Ok (), programWithSqrt\<lparr>Function := None\<rparr>)"
    by (rule substituted_function_not_lowered)
  then show ?thesis
    by (simp add: programWithSqrt_def emptyProgram_def)
qed

text \<open>
  After a registration that did not panic, for a name without substitution and a
  declaration with a body, the steps are: lower the body, stop on its error, stop
  for an ignored name, emit otherwise.
\<close>

lemma steps_after_registration:
  assumes "registerFunctionDecl n s = Ok s0" and "\<not> hasSubstitution (Name n) s"
    and "getFunctionBody n = Some b"
  shows "transpileFunctionDecl_steps c n s =
     (case transpileToBlockStmt c b s0 of
        (Inl e, s1) \<Rightarrow> (Err e, s1)
      | (Inr blk, s1) \<Rightarrow>
          if ignoredFunction (Name n) then (Ok (), s1)
          else emitFuncDecl c n (functionDefinitions s0 (Name n)) (Some blk) s1)"
proof -
  have "\<not> hasSubstitution (Name n) s0"
    using assms(1,2) by (rule registerFunctionDecl_hasSubstitution)
  then have "\<not> (case functionDefinitions s0 (Name n) of None \<Rightarrow> False
                 | Some fd \<Rightarrow> Substitution fd \<noteq> '''')"
    by (simp add: hasSubstitution_def)
  then show ?thesis
    using assms(1,3)
    by (simp add: transpileFunctionDecl_steps_def GetFunctionDefinition_def
          split: prod.splits sum.splits)
qed

text \<open>
  The emission for a registered signature and a lowered body, given what the parameter
  list, the resolver and the message collection returned.
\<close>

lemma functionComment_Function: "Function (functionComment fd s) = Function s"
  by (simp add: functionComment_def)

lemma emitFuncDecl_registered:
  assumes "getFieldList_range c (Children n) [] (functionComment fd s) = (fieldList, s2)"
    and "ResolveType c (ReturnType fd) s2 = ((t, err), s3)"
    and "AddMessage (GenerateWarningMessage err ''FunctionDecl'') s3 = (added, s4)"
  shows "emitFuncDecl c n (Some fd) (Some blk) s =
     (if (case Function s4 of None \<Rightarrow> False | Some fn \<Rightarrow> Name fn = ''main'') then
        (case prependStmtsInMain fieldList s4 of
           (Panic m, s5) \<Rightarrow> (Panic m, s5)
         | (Err e, s5) \<Rightarrow> (Err e, s5)
         | (Ok stmts, s5) \<Rightarrow>
             (Ok (),
              s5\<lparr>Decls := Decls s5 @
                 [\<lparr>Name_go = Ident (Name n), Params = [], Results = [],
                   Body = Some (stmts @ blk)\<rparr>]\<rparr>))
      else
        (Ok (),
         s4\<lparr>Decls := Decls s4 @
            [\<lparr>Name_go = Ident (Name n), Params = fieldList,
              Results = [\<lparr>Names = [], Type_field = Ident t\<rparr>], Body = Some blk\<rparr>]\<rparr>))"
  using assms
  by (cases "Verbose s")
     (auto simp add: emitFuncDecl_def getFieldList_def functionComment_def NewIdent_def
        split: prod.splits result.splits)

text \<open>
  C3, as amended. A declaration with a body whose name is one of the ignored names and
  has no substitution registered. The body is lowered first, and only then is the name
  tested. Declaration lowering returns the error of the block lowerer when it gave one,
  and no error otherwise; in both cases the state is the one the block lowerer left,
  with the active function cleared. So no definition is appended, and the declaration
  lowering records no diagnostic of its own.
\<close>

theorem ignored_function_not_emitted:
  assumes "ignoredFunction (Name n)" and "getFunctionBody n = Some b"
    and "\<not> hasSubstitution (Name n) s"
    and "registerFunctionDecl n (s\<lparr>Function := Some n\<rparr>) = Ok s0"
    and "transpileToBlockStmt c b s0 = (r, s1)"
  shows "transpileFunctionDecl c n s =
           (case r of Inl e \<Rightarrow> Err e | Inr blk \<Rightarrow> Ok (), s1\<lparr>Function := None\<rparr>)"
proof -
  have "\<not> hasSubstitution (Name n) (s\<lparr>Function := Some n\<rparr>)"
    using assms(3) by (simp add: hasSubstitution_def)
  from steps_after_registration [OF assms(4) this assms(2), of c]
  show ?thesis
    using assms(1,5) by (simp add: transpileFunctionDecl_def split: sum.splits)
qed

theorem ignored_function_not_emitted_witness:
  "transpileFunctionDecl sampleCollaborators istypeDecl emptyProgram =
     (Ok (), emptyProgram\<lparr>functionDefinitions :=
        [''__istype'' \<mapsto> \<lparr>Name_sig = ''__istype'', ReturnType = ''int'',
                            ArgumentTypes = [''int''], Substitution = ''''\<rparr>]\<rparr>)"
proof -
  let ?s0 = "emptyProgram\<lparr>Function := Some istypeDecl, functionDefinitions :=
        [''__istype'' \<mapsto> \<lparr>Name_sig = ''__istype'', ReturnType = ''int'',
                            ArgumentTypes = [''int''], Substitution = ''''\<rparr>]\<rparr>"
  have a: "ignoredFunction (Name istypeDecl)"
    by (simp add: ignoredFunction_def istypeDecl_def)
  have b: "getFunctionBody istypeDecl = Some (CompoundStmt [])"
    by (simp add: getFunctionBody_def istypeDecl_def)
  have c: "\<not> hasSubstitution (Name istypeDecl) emptyProgram"
    by (simp add: hasSubstitution_def emptyProgram_def)
  have d: "registerFunctionDecl istypeDecl (emptyProgram\<lparr>Function := Some istypeDecl\<rparr>) = Ok ?s0"
    by (simp add: registerFunctionDecl_def GetFunctionDefinition_def AddFunctionDefinition_def
          getFunctionReturnType_def TrimSpace_def SplitHead_def isSpace_def
          getFunctionArgumentTypes_def emptyProgram_def istypeDecl_def)
  have e: "transpileToBlockStmt sampleCollaborators (CompoundStmt []) ?s0 =
             (Inr [OtherStmt ''work()''], ?s0)"
    by (simp add: sampleCollaborators_def sampleBlock_def)
  show ?thesis
    using ignored_function_not_emitted [OF a b c d e] by (simp add: emptyProgram_def)
qed

text \<open>
  The claim as stated, that lowering such a declaration surfaces no error and records no
  diagnostic, fails when the block lowerer fails on the body: the error is returned, and
  the diagnostic the block lowerer recorded stays in the collected messages.
\<close>

theorem ignored_function_error_counterexample:
  "ignoredFunction (Name istypeDecl) \<and>
   getFunctionBody istypeDecl = Some (CompoundStmt []) \<and>
   fst (transpileFunctionDecl failingCollaborators istypeDecl emptyProgram) =
     Err ''cannot transpile statement'' \<and>
   messages (snd (transpileFunctionDecl failingCollaborators istypeDecl emptyProgram)) =
     [''// Warning: unsupported statement'']"
  by (simp add: transpileFunctionDecl_def transpileFunctionDecl_steps_def
        registerFunctionDecl_def GetFunctionDefinition_def AddFunctionDefinition_def
        getFunctionReturnType_def TrimSpace_def SplitHead_def isSpace_def
        getFunctionArgumentTypes_def getFunctionBody_def ignoredFunction_def
        failingCollaborators_def failingBlock_def emptyProgram_def istypeDecl_def)

text \<open>
  With collaborators that keep the active function, it is still the declaration when the
  emission tests it, and the fields carry the names of the declared parameters.
\<close>

lemma emitFuncDecl_active:
  assumes kf: "keepsFunction c" and act: "Function s = Some n"
  obtains fieldList s2 t err s3 added s4 where
    "getFieldList_range c (Children n) [] (functionComment fd s) = (fieldList, s2)"
    "ResolveType c (ReturnType fd) s2 = ((t, err), s3)"
    "AddMessage (GenerateWarningMessage err ''FunctionDecl'') s3 = (added, s4)"
    "Function s4 = Some n"
    "map Names fieldList = map (\<lambda>name. [Ident name]) (parameterNames (Children n))"
proof -
  obtain fieldList s2 where
    gf: "getFieldList_range c (Children n) [] (functionComment fd s) = (fieldList, s2)"
    by (metis prod.exhaust)
  obtain t err s3 where res: "ResolveType c (ReturnType fd) s2 = ((t, err), s3)"
    by (metis prod.exhaust)
  obtain added s4 where
    am: "AddMessage (GenerateWarningMessage err ''FunctionDecl'') s3 = (added, s4)"
    by (metis prod.exhaust)
  have "Function s2 = Function (functionComment fd s)"
    using getFieldList_range_Function [OF kf, of "Children n" "[]" "functionComment fd s"] gf
    by simp
  then have f2: "Function s2 = Some n"
    using act by (simp add: functionComment_Function)
  have f3: "Function s3 = Some n"
    using keepsFunction_ResolveType [OF kf res] f2 by simp
  have f4: "Function s4 = Some n"
    using AddMessage_Function [of "GenerateWarningMessage err ''FunctionDecl''" s3] am f3 by simp
  have names: "map Names fieldList = map (\<lambda>name. [Ident name]) (parameterNames (Children n))"
    using getFieldList_range_Names [of c "Children n" "[]" "functionComment fd s"] gf by simp
  show thesis
    using that [OF gf res am f4 names] .
qed



text \<open>
  C10. A declaration with a body that is emitted (its name is not ignored and has no
  substitution, registration does not panic, the block lowerer succeeds), lowered with
  collaborators that keep the active function. Lowering returns no error and appends one
  definition under the declaration's name. For every name but \<^verbatim>\<open>main\<close> its result list
  has exactly one field, without names, whose type is what the resolver returned for
  the registered return type, whatever that type is, \<^verbatim>\<open>void\<close> included; for \<^verbatim>\<open>main\<close>
  the result list is empty.
\<close>

theorem emitted_result_types:
  assumes "getFunctionBody n = Some b" and "\<not> ignoredFunction (Name n)"
    and "\<not> hasSubstitution (Name n) s"
    and "keepsFunction c"
    and "registerFunctionDecl n (s\<lparr>Function := Some n\<rparr>) = Ok s0"
    and "functionDefinitions s0 (Name n) = Some f"
    and "transpileToBlockStmt c b s0 = (Inr blk, s1)"
  shows "fst (transpileFunctionDecl c n s) = Ok () \<and>
         (\<exists>before d. Decls (snd (transpileFunctionDecl c n s)) = before @ [d] \<and>
            Name_go d = Ident (Name n) \<and>
            (if Name n = ''main'' then Results d = []
             else \<exists>t err s2 s3. ResolveType c (ReturnType f) s2 = ((t, err), s3) \<and>
                    Results d = [\<lparr>Names = [], Type_field = Ident t\<rparr>]))"
proof -
  have nosub: "\<not> hasSubstitution (Name n) (s\<lparr>Function := Some n\<rparr>)"
    using assms(3) by (simp add: hasSubstitution_def)
  have "Function s0 = Some n"
    using registerFunctionDecl_frame(1) [OF assms(5)] by simp
  then have act: "Function s1 = Some n"
    using keepsFunction_transpileToBlockStmt [OF assms(4,7)] by simp
  have steps: "transpileFunctionDecl_steps c n (s\<lparr>Function := Some n\<rparr>) =
                 emitFuncDecl c n (Some f) (Some blk) s1"
    using steps_after_registration [OF assms(5) nosub assms(1), of c] assms(2,6,7)
    by simp
  from emitFuncDecl_active [OF assms(4) act, of f]
  obtain fieldList s2 t err s3 added s4 where
    gf: "getFieldList_range c (Children n) [] (functionComment f s1) = (fieldList, s2)"
    and res: "ResolveType c (ReturnType f) s2 = ((t, err), s3)"
    and am: "AddMessage (GenerateWarningMessage err ''FunctionDecl'') s3 = (added, s4)"
    and f4: "Function s4 = Some n"
    and names: "map Names fieldList = map (\<lambda>name. [Ident name]) (parameterNames (Children n))"
    by blast
  note emit = emitFuncDecl_registered [OF gf res am, of blk]
  show ?thesis
  proof (cases "Name n = ''main''")
    case True
    have "\<forall>field \<in> set fieldList. Names field \<in> set (map Names fieldList)"
      by simp
    then have "\<forall>field \<in> set fieldList. Names field \<noteq> []"
      unfolding names by auto
    then obtain stmts where
      "prependStmtsInMain fieldList s4 =
         (Ok stmts, if fieldList = [] then s4 else AddImport ''os'' s4)"
      using prependStmtsInMain_named by blast
    then have "emitFuncDecl c n (Some f) (Some blk) s1 =
        (Ok (),
         (if fieldList = [] then s4 else AddImport ''os'' s4)
           \<lparr>Decls := Decls (if fieldList = [] then s4 else AddImport ''os'' s4) @
             [\<lparr>Name_go = Ident (Name n), Params = [], Results = [],
               Body = Some (stmts @ blk)\<rparr>]\<rparr>)"
      using emit f4 True by simp
    then show ?thesis
      using steps True by (simp add: transpileFunctionDecl_def)
  next
    case False
    have "emitFuncDecl c n (Some f) (Some blk) s1 =
        (Ok (),
         s4\<lparr>Decls := Decls s4 @
            [\<lparr>Name_go = Ident (Name n), Params = fieldList,
              Results = [\<lparr>Names = [], Type_field = Ident t\<rparr>], Body = Some blk\<rparr>]\<rparr>)"
      using emit f4 False by simp
    then have "fst (transpileFunctionDecl c n s) = Ok ()"
      and "Decls (snd (transpileFunctionDecl c n s)) = Decls s4 @
            [\<lparr>Name_go = Ident (Name n), Params = fieldList,
              Results = [\<lparr>Names = [], Type_field = Ident t\<rparr>], Body = Some blk\<rparr>]"
      using steps by (simp_all add: transpileFunctionDecl_def)
    then show ?thesis
      using False res by auto
  qed
qed

theorem emitted_result_types_witness:
  "fst (transpileFunctionDecl sampleCollaborators tickDecl emptyProgram) = Ok () \<and>
   map Results (Decls (snd (transpileFunctionDecl sampleCollaborators tickDecl emptyProgram))) =
     [[\<lparr>Names = [], Type_field = Ident ''''\<rparr>]] \<and>
   ResolveType sampleCollaborators ''void'' emptyProgram = (('''', None), emptyProgram)"
proof -
  let ?f = "\<lparr>Name_sig = ''tick'', ReturnType = ''void'', ArgumentTypes = [''int''],
             Substitution = ''''\<rparr>"
  let ?s0 = "emptyProgram\<lparr>Function := Some tickDecl, functionDefinitions := [''tick'' \<mapsto> ?f]\<rparr>"
  have b: "getFunctionBody tickDecl = Some (CompoundStmt [])"
    by (simp add: getFunctionBody_def tickDecl_def)
  have i: "\<not> ignoredFunction (Name tickDecl)"
    by (simp add: ignoredFunction_def tickDecl_def)
  have h: "\<not> hasSubstitution (Name tickDecl) emptyProgram"
    by (simp add: hasSubstitution_def emptyProgram_def)
  have k: "keepsFunction sampleCollaborators"
    by (simp add: keepsFunction_def sampleCollaborators_def sampleBlock_def sampleExpr_def
          sampleResolve_def sampleCast_def split: node.splits)
  have r: "registerFunctionDecl tickDecl (emptyProgram\<lparr>Function := Some tickDecl\<rparr>) = Ok ?s0"
    by (simp add: registerFunctionDecl_def GetFunctionDefinition_def AddFunctionDefinition_def
          getFunctionReturnType_def TrimSpace_def SplitHead_def isSpace_def
          getFunctionArgumentTypes_def emptyProgram_def tickDecl_def)
  have f: "functionDefinitions ?s0 (Name tickDecl) = Some ?f"
    by (simp add: tickDecl_def)
  have t: "transpileToBlockStmt sampleCollaborators (CompoundStmt []) ?s0 =
             (Inr [OtherStmt ''work()''], ?s0)"
    by (simp add: sampleCollaborators_def sampleBlock_def)
  have n: "Name tickDecl \<noteq> ''main''"
    by (simp add: tickDecl_def)
  have one: "length (Decls (snd (transpileFunctionDecl sampleCollaborators tickDecl emptyProgram))) = 1"
    by (simp add: transpileFunctionDecl_def transpileFunctionDecl_steps_def
          registerFunctionDecl_def GetFunctionDefinition_def AddFunctionDefinition_def
          getFunctionReturnType_def TrimSpace_def SplitHead_def isSpace_def
          getFunctionArgumentTypes_def getFunctionBody_def ignoredFunction_def
          emitFuncDecl_def getFieldList_def AddMessage_def GenerateWarningMessage_def
          sampleCollaborators_def sampleBlock_def sampleResolve_def
          emptyProgram_def tickDecl_def)
  have void: "ResolveType sampleCollaborators ''void'' s2 = ((t, err), s3) \<Longrightarrow> t = ''''"
    for s2 t err s3
    by (simp add: sampleCollaborators_def sampleResolve_def)
  have "fst (transpileFunctionDecl sampleCollaborators tickDecl emptyProgram) = Ok () \<and>
        (\<exists>before d. Decls (snd (transpileFunctionDecl sampleCollaborators tickDecl emptyProgram)) =
             before @ [d] \<and>
           (\<exists>t err s2 s3. ResolveType sampleCollaborators ''void'' s2 = ((t, err), s3) \<and>
                    Results d = [\<lparr>Names = [], Type_field = Ident t\<rparr>]))"
    using emitted_result_types [OF b i h k r f t] n by (simp, blast)
  then obtain before d where ok: "fst (transpileFunctionDecl sampleCollaborators tickDecl emptyProgram) = Ok ()"
    and decls: "Decls (snd (transpileFunctionDecl sampleCollaborators tickDecl emptyProgram)) = before @ [d]"
    and results: "\<exists>t err s2 s3. ResolveType sampleCollaborators ''void'' s2 = ((t, err), s3) \<and>
                    Results d = [\<lparr>Names = [], Type_field = Ident t\<rparr>]"
    by blast
  have "before = []"
    using one decls by simp
  moreover have "Results d = [\<lparr>Names = [], Type_field = Ident ''''\<rparr>]"
    using results void by blast
  ultimately show ?thesis
    using ok decls by (simp add: sampleCollaborators_def sampleResolve_def)
qed

text \<open>
  Declaration lowering consults the collaborators only in states whose active function
  is the declaration: collaborators that agree in those states give the same lowering.
\<close>

lemma getFieldList_range_agree:
  assumes "keepsFunction c" and "agreeWhileActive n c c'" and "Function s = Some n"
  shows "getFieldList_range c' cs r s = getFieldList_range c cs r s"
  using assms
proof (induction c cs r s rule: getFieldList_range.induct)
  case (2 c name ty rest r s)
  have same: "ResolveType c' ty s = ResolveType c ty s"
    using "2.prems"(2,3) by (simp add: agreeWhileActive_def)
  obtain t err s1 where res: "ResolveType c ty s = ((t, err), s1)"
    by (metis prod.exhaust)
  obtain added s2 where am: "AddMessage (GenerateWarningMessage err ''FunctionDecl'') s1 = (added, s2)"
    by (metis prod.exhaust)
  have "Function s1 = Some n"
    using keepsFunction_ResolveType [OF "2.prems"(1) res] "2.prems"(3) by simp
  then have "Function s2 = Some n"
    using AddMessage_Function [of "GenerateWarningMessage err ''FunctionDecl''" s1] am by simp
  then have "getFieldList_range c' rest (r @ [\<lparr>Names = [NewIdent name], Type_field = NewIdent t\<rparr>]) s2 =
             getFieldList_range c rest (r @ [\<lparr>Names = [NewIdent name], Type_field = NewIdent t\<rparr>]) s2"
    using "2.IH" [OF res [symmetric] refl am [symmetric]] "2.prems"(1,2) by simp
  then show ?case
    using same res am by simp
qed simp_all

lemma emitFuncDecl_agree:
  assumes kf: "keepsFunction c" and ag: "agreeWhileActive n c c'" and act: "Function s = Some n"
  shows "emitFuncDecl c' n (Some fd) (Some blk) s = emitFuncDecl c n (Some fd) (Some blk) s"
proof -
  obtain fieldList s2 where
    gf: "getFieldList_range c (Children n) [] (functionComment fd s) = (fieldList, s2)"
    by (metis prod.exhaust)
  obtain t err s3 where res: "ResolveType c (ReturnType fd) s2 = ((t, err), s3)"
    by (metis prod.exhaust)
  obtain added s4 where
    am: "AddMessage (GenerateWarningMessage err ''FunctionDecl'') s3 = (added, s4)"
    by (metis prod.exhaust)
  have fc: "Function (functionComment fd s) = Some n"
    using act by (simp add: functionComment_Function)
  have gf': "getFieldList_range c' (Children n) [] (functionComment fd s) = (fieldList, s2)"
    using getFieldList_range_agree [OF kf ag fc] gf by simp
  have "Function s2 = Some n"
    using getFieldList_range_Function [OF kf, of "Children n" "[]" "functionComment fd s"] gf fc
    by simp
  then have res': "ResolveType c' (ReturnType fd) s2 = ((t, err), s3)"
    using ag res by (simp add: agreeWhileActive_def)
  show ?thesis
    unfolding emitFuncDecl_registered [OF gf res am] emitFuncDecl_registered [OF gf' res' am] ..
qed

lemma steps_agree:
  assumes kf: "keepsFunction c" and ag: "agreeWhileActive n c c'" and act: "Function s = Some n"
  shows "transpileFunctionDecl_steps c' n s = transpileFunctionDecl_steps c n s"
proof (cases "registerFunctionDecl n s")
  case (Ok s0)
  have act0: "Function s0 = Some n"
    using registerFunctionDecl_frame(1) [OF Ok] act by simp
  obtain fd where fd: "functionDefinitions s0 (Name n) = Some fd"
    using registerFunctionDecl_lookup [OF Ok] by blast
  show ?thesis
  proof (cases "getFunctionBody n")
    case None
    then show ?thesis
      using Ok by (simp add: transpileFunctionDecl_steps_def Let_def)
  next
    case (Some b)
    have same: "transpileToBlockStmt c' b s0 = transpileToBlockStmt c b s0"
      using ag act0 by (simp add: agreeWhileActive_def)
    obtain r s1 where blk: "transpileToBlockStmt c b s0 = (r, s1)"
      by (metis prod.exhaust)
    have act1: "Function s1 = Some n"
      using keepsFunction_transpileToBlockStmt [OF kf blk] act0 by simp
    show ?thesis
    proof (cases r)
      case (Inl e)
      then show ?thesis
        using Ok Some same blk by (simp add: transpileFunctionDecl_steps_def Let_def)
    next
      case (Inr stmts)
      have "emitFuncDecl c' n (Some fd) (Some stmts) s1 = emitFuncDecl c n (Some fd) (Some stmts) s1"
        using kf ag act1 by (rule emitFuncDecl_agree)
      then show ?thesis
        using Ok Some same blk Inr fd
        by (simp add: transpileFunctionDecl_steps_def GetFunctionDefinition_def Let_def)
    qed
  qed
qed (simp_all add: transpileFunctionDecl_steps_def)

text \<open>
  C9. However declaration lowering ends (it returns no error, it returns an error, or it
  panics), the active function is cleared in the state it leaves, so the next
  declaration does not find a stale one. And with collaborators that keep the active
  function, the active function is the declaration throughout the lowering: the
  lowering is the same for any other collaborators that agree with them in the states
  whose active function is the declaration, whatever they do in other states.
\<close>

theorem active_function_discipline:
  "Function (snd (transpileFunctionDecl c n s)) = None \<and>
   (keepsFunction c \<and> agreeWhileActive n c c' \<longrightarrow>
      transpileFunctionDecl c' n s = transpileFunctionDecl c n s)"
proof -
  have "Function (snd (transpileFunctionDecl c n s)) = None"
    by (simp add: transpileFunctionDecl_def split: prod.splits)
  moreover have "transpileFunctionDecl c' n s = transpileFunctionDecl c n s"
    if "keepsFunction c" and "agreeWhileActive n c c'"
  proof -
    have "Function (s\<lparr>Function := Some n\<rparr>) = Some n"
      by simp
    with that have "transpileFunctionDecl_steps c' n (s\<lparr>Function := Some n\<rparr>) =
                    transpileFunctionDecl_steps c n (s\<lparr>Function := Some n\<rparr>)"
      by (rule steps_agree)
    then show ?thesis
      by (simp add: transpileFunctionDecl_def)
  qed
  ultimately show ?thesis
    by blast
qed

theorem active_function_discipline_witness:
  "Function (snd (transpileFunctionDecl sampleCollaborators mainDecl programInOrigin)) = None \<and>
   Function (snd (transpileFunctionDecl failingCollaborators tickDecl programInOrigin)) = None \<and>
   Function (snd (transpileFunctionDecl sampleCollaborators malformedDecl programInOrigin)) = None \<and>
   fst (transpileFunctionDecl sampleCollaborators mainDecl programInOrigin) = Ok () \<and>
   fst (transpileFunctionDecl failingCollaborators tickDecl programInOrigin) =
     Err ''cannot transpile statement'' \<and>
   fst (transpileFunctionDecl sampleCollaborators malformedDecl programInOrigin) =
     Panic ''unable to extract the return type from:  (int)'' \<and>
   transpileFunctionDecl (onlyWhileActive mainDecl) mainDecl programInOrigin =
     transpileFunctionDecl sampleCollaborators mainDecl programInOrigin \<and>
   transpileToBlockStmt (onlyWhileActive mainDecl) (CompoundStmt []) programInOrigin =
     (Inl ''no active function'', programInOrigin)"
proof -
  have k: "keepsFunction sampleCollaborators"
    by (simp add: keepsFunction_def sampleCollaborators_def sampleBlock_def sampleExpr_def
          sampleResolve_def sampleCast_def split: node.splits)
  have a: "agreeWhileActive mainDecl sampleCollaborators (onlyWhileActive mainDecl)"
    by (simp add: agreeWhileActive_def sampleCollaborators_def onlyWhileActive_def)
  have e1: "fst (transpileFunctionDecl sampleCollaborators mainDecl programInOrigin) = Ok ()"
    by (simp add: transpileFunctionDecl_def transpileFunctionDecl_steps_def
          registerFunctionDecl_def GetFunctionDefinition_def AddFunctionDefinition_def
          getFunctionReturnType_def TrimSpace_def SplitHead_def isSpace_def
          getFunctionArgumentTypes_def getFunctionBody_def ignoredFunction_def
          emitFuncDecl_def getFieldList_def AddMessage_def GenerateWarningMessage_def
          prependStmtsInMain_def AddImport_def
          sampleCollaborators_def sampleBlock_def sampleResolve_def
          programInOrigin_def emptyProgram_def mainDecl_def)
  have e2: "fst (transpileFunctionDecl failingCollaborators tickDecl programInOrigin) =
              Err ''cannot transpile statement''"
    by (simp add: transpileFunctionDecl_def transpileFunctionDecl_steps_def
          registerFunctionDecl_def GetFunctionDefinition_def AddFunctionDefinition_def
          getFunctionReturnType_def TrimSpace_def SplitHead_def isSpace_def
          getFunctionArgumentTypes_def getFunctionBody_def
          failingCollaborators_def failingBlock_def
          programInOrigin_def emptyProgram_def tickDecl_def)
  have e3: "fst (transpileFunctionDecl sampleCollaborators malformedDecl programInOrigin) =
              Panic ''unable to extract the return type from:  (int)''"
    by (simp add: transpileFunctionDecl_def transpileFunctionDecl_steps_def
          registerFunctionDecl_def GetFunctionDefinition_def
          getFunctionReturnType_def TrimSpace_def SplitHead_def isSpace_def
          programInOrigin_def emptyProgram_def malformedDecl_def)
  have e4: "transpileToBlockStmt (onlyWhileActive mainDecl) (CompoundStmt []) programInOrigin =
              (Inl ''no active function'', programInOrigin)"
    by (simp add: onlyWhileActive_def programInOrigin_def mainDecl_def pointDecl_def)
  show ?thesis
    using active_function_discipline
            [of sampleCollaborators mainDecl programInOrigin "onlyWhileActive mainDecl"]
      active_function_discipline [of failingCollaborators tickDecl programInOrigin]
      active_function_discipline [of sampleCollaborators malformedDecl programInOrigin]
      k a e1 e2 e3 e4
    by simp
qed

section \<open>The function registry\<close>

text \<open>
  With collaborators that leave the registry alone, a signature that is registered stays
  what it is through every step of declaration lowering.
\<close>

lemma keepsRegistry_ResolveType:
  assumes "keepsRegistry c" and "ResolveType c t s = (r, s1)"
  shows "functionDefinitions s1 = functionDefinitions s"
proof -
  have "functionDefinitions (snd (ResolveType c t s)) = functionDefinitions s"
    using assms(1) by (simp add: keepsRegistry_def)
  then show ?thesis
    using assms(2) by simp
qed

lemma keepsRegistry_transpileToBlockStmt:
  assumes "keepsRegistry c" and "transpileToBlockStmt c b s = (r, s1)"
  shows "functionDefinitions s1 = functionDefinitions s"
proof -
  have "functionDefinitions (snd (transpileToBlockStmt c b s)) = functionDefinitions s"
    using assms(1) by (simp add: keepsRegistry_def)
  then show ?thesis
    using assms(2) by simp
qed

lemma getFieldList_range_registry:
  assumes "keepsRegistry c"
  shows "functionDefinitions (snd (getFieldList_range c cs r s)) = functionDefinitions s"
  using assms
proof (induction c cs r s rule: getFieldList_range.induct)
  case (2 c name ty rest r s)
  obtain t err s1 where res: "ResolveType c ty s = ((t, err), s1)"
    by (metis prod.exhaust)
  obtain added s2 where am: "AddMessage (GenerateWarningMessage err ''FunctionDecl'') s1 = (added, s2)"
    by (metis prod.exhaust)
  have "functionDefinitions s1 = functionDefinitions s"
    using "2.prems" res by (rule keepsRegistry_ResolveType)
  moreover have "functionDefinitions s2 = functionDefinitions s1"
    using AddMessage_registry [of "GenerateWarningMessage err ''FunctionDecl''" s1] am by simp
  moreover have "functionDefinitions (snd (getFieldList_range c rest
      (r @ [\<lparr>Names = [NewIdent name], Type_field = NewIdent t\<rparr>]) s2)) = functionDefinitions s2"
    using "2.IH" [OF res [symmetric] refl am [symmetric]] "2.prems" by simp
  ultimately show ?case
    using res am by simp
qed simp_all

lemma prependStmtsInMain_registry:
  "functionDefinitions (snd (prependStmtsInMain fieldList s)) = functionDefinitions s"
  by (simp add: prependStmtsInMain_def AddImport_registry Let_def split: list.splits)

lemma functionComment_registry: "functionDefinitions (functionComment fd s) = functionDefinitions s"
  by (simp add: functionComment_def)

lemma emitFuncDecl_registry:
  assumes kr: "keepsRegistry c"
  shows "functionDefinitions (snd (emitFuncDecl c n (Some fd) (Some blk) s)) =
           functionDefinitions s"
proof -
  obtain fieldList s2 where
    gf: "getFieldList_range c (Children n) [] (functionComment fd s) = (fieldList, s2)"
    by (metis prod.exhaust)
  obtain t err s3 where res: "ResolveType c (ReturnType fd) s2 = ((t, err), s3)"
    by (metis prod.exhaust)
  obtain added s4 where
    am: "AddMessage (GenerateWarningMessage err ''FunctionDecl'') s3 = (added, s4)"
    by (metis prod.exhaust)
  have "functionDefinitions s2 = functionDefinitions s"
    using getFieldList_range_registry [OF kr, of "Children n" "[]" "functionComment fd s"] gf
    by (simp add: functionComment_registry)
  moreover have "functionDefinitions s3 = functionDefinitions s2"
    using kr res by (rule keepsRegistry_ResolveType)
  moreover have "functionDefinitions s4 = functionDefinitions s3"
    using AddMessage_registry [of "GenerateWarningMessage err ''FunctionDecl''" s3] am by simp
  ultimately have r4: "functionDefinitions s4 = functionDefinitions s"
    by simp
  obtain pr s5 where pre: "prependStmtsInMain fieldList s4 = (pr, s5)"
    by (metis prod.exhaust)
  have "functionDefinitions s5 = functionDefinitions s"
    using prependStmtsInMain_registry [of fieldList s4] pre r4 by simp
  then show ?thesis
    unfolding emitFuncDecl_registered [OF gf res am]
    using pre r4 by (cases pr) simp_all
qed

lemma steps_registry:
  assumes kr: "keepsRegistry c" and reg: "functionDefinitions s name = Some f"
  shows "functionDefinitions (snd (transpileFunctionDecl_steps c n s)) name = Some f"
proof (cases "registerFunctionDecl n s")
  case (Ok s0)
  have reg0: "functionDefinitions s0 name = Some f"
    using Ok reg by (rule registerFunctionDecl_keeps_registered)
  obtain fd where fd: "functionDefinitions s0 (Name n) = Some fd"
    using registerFunctionDecl_lookup [OF Ok] by blast
  show ?thesis
  proof (cases "getFunctionBody n")
    case None
    then show ?thesis
      using Ok reg0 by (simp add: transpileFunctionDecl_steps_def Let_def)
  next
    case (Some b)
    obtain r s1 where blk: "transpileToBlockStmt c b s0 = (r, s1)"
      by (metis prod.exhaust)
    have reg1: "functionDefinitions s1 name = Some f"
      using keepsRegistry_transpileToBlockStmt [OF kr blk] reg0 by simp
    show ?thesis
    proof (cases r)
      case (Inl e)
      then show ?thesis
        using Ok Some blk reg0 reg1 by (simp add: transpileFunctionDecl_steps_def Let_def)
    next
      case (Inr stmts)
      have "functionDefinitions (snd (emitFuncDecl c n (Some fd) (Some stmts) s1)) name = Some f"
        using emitFuncDecl_registry [OF kr, of n fd stmts s1] reg1 by simp
      then show ?thesis
        using Ok Some blk Inr fd reg0 reg1
        by (simp add: transpileFunctionDecl_steps_def GetFunctionDefinition_def Let_def)
    qed
  qed
qed (simp_all add: transpileFunctionDecl_steps_def reg)

lemma transpileFunctionDecl_registry:
  assumes "keepsRegistry c" and "functionDefinitions s name = Some f"
  shows "functionDefinitions (snd (transpileFunctionDecl c n s)) name = Some f"
proof -
  have "functionDefinitions (s\<lparr>Function := Some n\<rparr>) name = Some f"
    using assms(2) by simp
  with assms(1) have
    "functionDefinitions (snd (transpileFunctionDecl_steps c n (s\<lparr>Function := Some n\<rparr>))) name =
       Some f"
    by (rule steps_registry)
  then show ?thesis
    by (cases "transpileFunctionDecl_steps c n (s\<lparr>Function := Some n\<rparr>)")
       (simp add: transpileFunctionDecl_def)
qed

text \<open>
  C4. When a signature is registered for a name, the registration step of a declaration
  with that name changes nothing, and after any run of declaration lowerings, with
  collaborators that leave the registry alone, the lookup of the name still returns that
  signature: the first registration wins, whichever declarations follow and whatever
  their prototypes say.
\<close>

theorem first_registration_wins:
  assumes "keepsRegistry c" and "functionDefinitions s name = Some f" and "Name n = name"
  shows "registerFunctionDecl n s = Ok s \<and>
         functionDefinitions (transpileFunctionDecls c ns s) name = Some f"
proof -
  have "functionDefinitions (transpileFunctionDecls c ns s) name = Some f"
    using assms(2)
  proof (induction ns arbitrary: s)
    case Nil
    then show ?case by simp
  next
    case (Cons d ds)
    have "functionDefinitions (snd (transpileFunctionDecl c d s)) name = Some f"
      using assms(1) Cons.prems by (rule transpileFunctionDecl_registry)
    then show ?case
      using Cons.IH by simp
  qed
  moreover have "registerFunctionDecl n s = Ok s"
    using assms(2,3) by (simp add: registerFunctionDecl_registered)
  ultimately show ?thesis
    by simp
qed

theorem first_registration_wins_witness:
  "registerFunctionDecl mainRedeclared programInMain = Ok programInMain \<and>
   functionDefinitions
     (transpileFunctionDecls sampleCollaborators [mainRedeclared, tickDecl, mainDecl] programInMain)
     ''main'' = Some mainSignature \<and>
   getFunctionReturnType (Type mainRedeclared) = Ok ''float'' \<and>
   ReturnType mainSignature = ''int''"
proof -
  have k: "keepsRegistry sampleCollaborators"
    by (simp add: keepsRegistry_def sampleCollaborators_def sampleBlock_def sampleExpr_def
          sampleResolve_def sampleCast_def split: node.splits)
  have f: "functionDefinitions programInMain ''main'' = Some mainSignature"
    by (simp add: programInMain_def)
  have n: "Name mainRedeclared = ''main''"
    by (simp add: mainRedeclared_def)
  have e: "getFunctionReturnType (Type mainRedeclared) = Ok ''float''"
    by (simp add: getFunctionReturnType_def TrimSpace_def SplitHead_def isSpace_def
          mainRedeclared_def)
  show ?thesis
    using first_registration_wins [OF k f n, of "[mainRedeclared, tickDecl, mainDecl]"] e
    by (simp add: mainSignature_def)
qed

section \<open>Return-type extraction\<close>

text \<open>
  What trimming and splitting do to a text that is given in pieces: white space around a
  core that starts and ends with other characters is dropped, a text of white space
  trims to nothing, and the text before the first separator is the part that does not
  contain it.
\<close>

lemma TrimSpace_spaces:
  assumes "\<forall>ch \<in> set ws. isSpace ch"
  shows "TrimSpace ws = []"
proof -
  have d: "dropWhile isSpace ws = []"
    using assms by (induction ws) simp_all
  show ?thesis
    by (simp only: TrimSpace_def d rev.simps dropWhile.simps)
qed

lemma TrimSpace_core:
  assumes "\<forall>ch \<in> set (ws1 @ ws2). isSpace ch" and "r \<noteq> []"
    and "\<not> isSpace (hd r)" and "\<not> isSpace (last r)"
  shows "TrimSpace (ws1 @ r @ ws2) = r"
proof -
  obtain x xs where r: "r = x # xs"
    using assms(2) by (cases r) auto
  have left: "\<forall>ch \<in> set ws1. isSpace ch" and right: "\<forall>ch \<in> set (rev ws2). isSpace ch"
    using assms(1) by simp_all
  have "\<not> isSpace x"
    using assms(3) r by simp
  then have "dropWhile isSpace (ws1 @ x # (xs @ ws2)) = x # (xs @ ws2)"
    using left by (simp add: dropWhile_append3)
  then have first: "dropWhile isSpace (ws1 @ r @ ws2) = r @ ws2"
    using r by simp
  have rr: "rev r = last r # rev (butlast r)"
    using assms(2) by (metis append_butlast_last_id rev.simps(2) rev_append rev_singleton_conv append_Cons append_Nil)
  have "dropWhile isSpace (rev ws2 @ last r # rev (butlast r)) = last r # rev (butlast r)"
    using right assms(4) by (simp add: dropWhile_append3)
  then have "dropWhile isSpace (rev ws2 @ rev r) = rev r"
    by (simp only: rr)
  then have "dropWhile isSpace (rev (r @ ws2)) = rev r"
    by (simp only: rev_append)
  then show ?thesis
    by (simp only: TrimSpace_def first rev_rev_ident)
qed

lemma SplitHead_prefix:
  assumes "sep \<notin> set pre" and "rest = [] \<or> hd rest = sep"
  shows "SplitHead sep (pre @ rest) = pre"
proof (cases rest)
  case Nil
  have "takeWhile (\<lambda>ch. ch \<noteq> sep) pre = pre"
    using assms(1) by (auto simp add: takeWhile_eq_all_conv)
  then show ?thesis
    using Nil by (simp add: SplitHead_def)
next
  case (Cons x xs)
  then have "x = sep"
    using assms(2) by simp
  moreover have "takeWhile (\<lambda>ch. ch \<noteq> sep) pre = pre"
    using assms(1) by (auto simp add: takeWhile_eq_all_conv)
  ultimately show ?thesis
    using Cons by (simp add: SplitHead_def takeWhile_tail)
qed

text \<open>
  A run ends in a state that some initial part of the sequence of lowerings reaches,
  and a panic in a declaration aborts every run that completed up to it.
\<close>

lemma transpileRun_state:
  "\<exists>k \<le> length ns. snd (transpileRun c ns s) = transpileFunctionDecls c (take k ns) s"
proof (induction ns arbitrary: s)
  case Nil
  then show ?case by simp
next
  case (Cons n ns)
  obtain r s1 where d: "transpileFunctionDecl c n s = (r, s1)"
    by (metis prod.exhaust)
  obtain k where k: "k \<le> length ns"
    and run: "snd (transpileRun c ns s1) = transpileFunctionDecls c (take k ns) s1"
    using Cons.IH by blast
  show ?case
  proof (cases r)
    case (Ok u)
    then have "snd (transpileRun c (n # ns) s) = transpileFunctionDecls c (take (Suc k) (n # ns)) s"
      using d run by simp
    then show ?thesis
      using k by (metis Suc_le_mono length_Cons)
  next
    case (Err e)
    then have "snd (transpileRun c (n # ns) s) = snd (transpileRun c ns s1)"
      using d by (simp split: prod.splits run_outcome.splits)
    then have "snd (transpileRun c (n # ns) s) = transpileFunctionDecls c (take (Suc k) (n # ns)) s"
      using d run by simp
    then show ?thesis
      using k by (metis Suc_le_mono length_Cons)
  next
    case (Panic m)
    then have "snd (transpileRun c (n # ns) s) = transpileFunctionDecls c (take (Suc 0) (n # ns)) s"
      using d by simp
    then show ?thesis
      by (metis Suc_le_mono length_Cons le0)
  qed
qed

lemma transpileRun_aborted:
  assumes "transpileFunctionDecl c n s = (Panic m, s')"
    and "transpileRun c earlier s0 = (Completed es, s)"
  shows "transpileRun c (earlier @ n # later) s0 = (Aborted m, s')"
  using assms(2)
proof (induction earlier arbitrary: s0 es)
  case Nil
  then show ?case
    using assms(1) by simp
next
  case (Cons d ds)
  obtain r s1 where d: "transpileFunctionDecl c d s0 = (r, s1)"
    by (metis prod.exhaust)
  show ?case
  proof (cases r)
    case (Ok u)
    then have "transpileRun c ds s1 = (Completed es, s)"
      using Cons.prems d by simp
    then have "transpileRun c (ds @ n # later) s1 = (Aborted m, s')"
      by (rule Cons.IH)
    then show ?thesis
      using d Ok by simp
  next
    case (Err e)
    obtain o2 s2 where rest: "transpileRun c ds s1 = (o2, s2)"
      by (metis prod.exhaust)
    then obtain es' where "o2 = Completed es'" and "s2 = s"
      using Cons.prems d Err by (cases o2) simp_all
    then have "transpileRun c (ds @ n # later) s1 = (Aborted m, s')"
      using rest Cons.IH by simp
    then show ?thesis
      using d Err by simp
  next
    case (Panic p)
    then show ?thesis
      using Cons.prems d by simp
  qed
qed

text \<open>
  C8. Return-type extraction on an ASCII prototype text. When the text is some white
  space, a core \<open>r\<close> that neither starts nor ends with white space, some white space,
  and then either nothing or a rest that starts with the opening parenthesis, none
  occurring before, the result is \<open>r\<close>: everything before the first parenthesis,
  trimmed. When there is only white space before the first parenthesis (or in the whole
  text), extraction panics. The declaration lowering that calls it, for a name not yet
  registered, then ends with that panic, not with an error it returns, and leaves the
  state as it was with the active function cleared: no message is collected for it. And
  the panic is fatal to the whole run: a run that completed the earlier declarations and
  comes to such a declaration is aborted with that panic in that state, whatever
  declarations come later; none of them is lowered.
\<close>

theorem return_type_extraction:
  assumes "ascii f"
  shows "(f = ws1 @ r @ ws2 @ rest \<and> (\<forall>ch \<in> set (ws1 @ ws2). isSpace ch) \<and> r \<noteq> [] \<and>
          \<not> isSpace (hd r) \<and> \<not> isSpace (last r) \<and> CHR ''('' \<notin> set (ws1 @ r @ ws2) \<and>
          (rest = [] \<or> hd rest = CHR ''('') \<longrightarrow>
            getFunctionReturnType f = Ok r) \<and>
         (f = ws @ rest' \<and> (\<forall>ch \<in> set ws. isSpace ch) \<and> (rest' = [] \<or> hd rest' = CHR ''('') \<longrightarrow>
            getFunctionReturnType f = Panic (''unable to extract the return type from: '' @ f) \<and>
            (Type n = f \<and> functionDefinitions s (Name n) = None \<longrightarrow>
               transpileFunctionDecl c n s =
                 (Panic (''unable to extract the return type from: '' @ f),
                  s\<lparr>Function := None\<rparr>) \<and>
               (transpileRun c earlier s0 = (Completed es, s) \<longrightarrow>
                  transpileRun c (earlier @ n # later) s0 =
                    (Aborted (''unable to extract the return type from: '' @ f),
                     s\<lparr>Function := None\<rparr>))))"
proof -
  have ok: "getFunctionReturnType f = Ok r"
    if "f = ws1 @ r @ ws2 @ rest" and "\<forall>ch \<in> set (ws1 @ ws2). isSpace ch" and "r \<noteq> []"
      and "\<not> isSpace (hd r)" and "\<not> isSpace (last r)" and "CHR ''('' \<notin> set (ws1 @ r @ ws2)"
      and "rest = [] \<or> hd rest = CHR ''(''"
  proof -
    have "SplitHead (CHR ''('') ((ws1 @ r @ ws2) @ rest) = ws1 @ r @ ws2"
      using that(6,7) by (rule SplitHead_prefix)
    then have "SplitHead (CHR ''('') f = ws1 @ r @ ws2"
      using that(1) by simp
    moreover have "TrimSpace (ws1 @ r @ ws2) = r"
      using that(2-5) by (rule TrimSpace_core)
    ultimately show ?thesis
      using that(3) by (simp add: getFunctionReturnType_def)
  qed
  have space_not_paren: "CHR ''('' \<notin> set ws" if "\<forall>ch \<in> set ws. isSpace ch" for ws
    using that by (auto simp add: isSpace_def)
  have bad: "getFunctionReturnType f = Panic (''unable to extract the return type from: '' @ f)"
    if "f = ws @ rest'" and "\<forall>ch \<in> set ws. isSpace ch" and "rest' = [] \<or> hd rest' = CHR ''(''"
  proof -
    have "SplitHead (CHR ''('') (ws @ rest') = ws"
      using space_not_paren [OF that(2)] that(3) by (rule SplitHead_prefix)
    moreover have "TrimSpace ws = []"
      using that(2) by (rule TrimSpace_spaces)
    ultimately show ?thesis
      using that(1) by (simp add: getFunctionReturnType_def)
  qed
  have fatal: "transpileFunctionDecl c n s =
                 (Panic (''unable to extract the return type from: '' @ f), s\<lparr>Function := None\<rparr>)"
    if "getFunctionReturnType f = Panic (''unable to extract the return type from: '' @ f)"
      and "Type n = f" and "functionDefinitions s (Name n) = None"
    using that
    by (simp add: transpileFunctionDecl_def transpileFunctionDecl_steps_def
          registerFunctionDecl_def GetFunctionDefinition_def)
  show ?thesis
  proof (intro conjI impI)
    assume "f = ws1 @ r @ ws2 @ rest \<and> (\<forall>ch \<in> set (ws1 @ ws2). isSpace ch) \<and> r \<noteq> [] \<and>
          \<not> isSpace (hd r) \<and> \<not> isSpace (last r) \<and> CHR ''('' \<notin> set (ws1 @ r @ ws2) \<and>
          (rest = [] \<or> hd rest = CHR ''('')"
    then show "getFunctionReturnType f = Ok r"
      by (elim conjE) (rule ok)
  next
    assume "f = ws @ rest' \<and> (\<forall>ch \<in> set ws. isSpace ch) \<and> (rest' = [] \<or> hd rest' = CHR ''('')"
    then show "getFunctionReturnType f = Panic (''unable to extract the return type from: '' @ f)"
      by (elim conjE) (rule bad)
  next
    assume "f = ws @ rest' \<and> (\<forall>ch \<in> set ws. isSpace ch) \<and> (rest' = [] \<or> hd rest' = CHR ''('')"
    then have "getFunctionReturnType f = Panic (''unable to extract the return type from: '' @ f)"
      by (elim conjE) (rule bad)
    moreover assume "Type n = f \<and> functionDefinitions s (Name n) = None"
    ultimately show "transpileFunctionDecl c n s =
                 (Panic (''unable to extract the return type from: '' @ f), s\<lparr>Function := None\<rparr>)"
      by (elim conjE) (rule fatal)
  next
    assume "f = ws @ rest' \<and> (\<forall>ch \<in> set ws. isSpace ch) \<and> (rest' = [] \<or> hd rest' = CHR ''('')"
    then have "getFunctionReturnType f = Panic (''unable to extract the return type from: '' @ f)"
      by (elim conjE) (rule bad)
    moreover assume "Type n = f \<and> functionDefinitions s (Name n) = None"
    ultimately have "transpileFunctionDecl c n s =
                 (Panic (''unable to extract the return type from: '' @ f), s\<lparr>Function := None\<rparr>)"
      by (elim conjE) (rule fatal)
    moreover assume "transpileRun c earlier s0 = (Completed es, s)"
    ultimately show "transpileRun c (earlier @ n # later) s0 =
                    (Aborted (''unable to extract the return type from: '' @ f),
                     s\<lparr>Function := None\<rparr>)"
      by (rule transpileRun_aborted)
  qed
qed

theorem return_type_extraction_witness:
  "getFunctionReturnType ''int (float)'' = Ok ''int'' \<and>
   getFunctionReturnType '' (int)'' = Panic ''unable to extract the return type from:  (int)'' \<and>
   transpileFunctionDecl sampleCollaborators malformedDecl emptyProgram =
     (Panic ''unable to extract the return type from:  (int)'', emptyProgram) \<and>
   transpileRun sampleCollaborators [tickDecl, malformedDecl, mainDecl] emptyProgram =
     (Aborted ''unable to extract the return type from:  (int)'',
      snd (transpileFunctionDecl sampleCollaborators tickDecl emptyProgram)) \<and>
   map Name_go (Decls (snd (transpileFunctionDecl sampleCollaborators tickDecl emptyProgram))) =
     [Ident ''tick'']"
proof -
  let ?tick = "snd (transpileFunctionDecl sampleCollaborators tickDecl emptyProgram)"
  have a1: "ascii ''int (float)''" and a2: "ascii '' (int)''"
    by (simp_all add: ascii_def)
  have p1: "''int (float)'' = [] @ ''int'' @ '' '' @ ''(float)'' \<and>
      (\<forall>ch \<in> set ([] @ '' ''). isSpace ch) \<and> ''int'' \<noteq> [] \<and>
      \<not> isSpace (hd ''int'') \<and> \<not> isSpace (last ''int'') \<and>
      CHR ''('' \<notin> set ([] @ ''int'' @ '' '') \<and>
      (''(float)'' = [] \<or> hd ''(float)'' = CHR ''('')"
    by (simp add: isSpace_def)
  have p2: "'' (int)'' = '' '' @ ''(int)'' \<and> (\<forall>ch \<in> set '' ''. isSpace ch) \<and>
      (''(int)'' = [] \<or> hd ''(int)'' = CHR ''('')"
    by (simp add: isSpace_def)
  have p3: "Type malformedDecl = '' (int)'' \<and>
      functionDefinitions emptyProgram (Name malformedDecl) = None"
    by (simp add: malformedDecl_def emptyProgram_def)
  have e: "emptyProgram\<lparr>Function := None\<rparr> = emptyProgram"
    by (simp add: emptyProgram_def)
  have tick: "fst (transpileFunctionDecl sampleCollaborators tickDecl emptyProgram) = Ok () \<and>
      functionDefinitions ?tick (Name malformedDecl) = None \<and>
      Function ?tick = None \<and>
      map Name_go (Decls ?tick) = [Ident ''tick'']"
    by (simp add: transpileFunctionDecl_def transpileFunctionDecl_steps_def
          registerFunctionDecl_def GetFunctionDefinition_def AddFunctionDefinition_def
          getFunctionReturnType_def TrimSpace_def SplitHead_def isSpace_def
          getFunctionArgumentTypes_def getFunctionBody_def ignoredFunction_def
          emitFuncDecl_def getFieldList_def AddMessage_def GenerateWarningMessage_def
          NewIdent_def sampleCollaborators_def sampleBlock_def sampleResolve_def
          emptyProgram_def tickDecl_def malformedDecl_def)
  obtain o1 s1 where pair: "transpileFunctionDecl sampleCollaborators tickDecl emptyProgram = (o1, s1)"
    by (metis prod.exhaust)
  then have "o1 = Ok ()"
    using tick by simp
  then have run: "transpileRun sampleCollaborators [tickDecl] emptyProgram = (Completed [], ?tick)"
    using pair by simp
  have p4: "Type malformedDecl = '' (int)'' \<and> functionDefinitions ?tick (Name malformedDecl) = None"
    using tick by (simp add: malformedDecl_def)
  have cleared: "?tick\<lparr>Function := None\<rparr> = ?tick"
    using tick by simp
  have r1: "getFunctionReturnType ''int (float)'' = Ok ''int''"
    using return_type_extraction
            [OF a1, where ?ws1.0 = "[]" and r = "''int''" and ?ws2.0 = "'' ''"
               and rest = "''(float)''"] p1
    by blast
  note t2 = return_type_extraction
            [OF a2, where ws = "'' ''" and rest' = "''(int)''" and n = malformedDecl
               and s = emptyProgram and c = sampleCollaborators]
  have r2: "getFunctionReturnType '' (int)'' =
              Panic (''unable to extract the return type from: '' @ '' (int)'')"
    using t2 p2 by blast
  have r3: "transpileFunctionDecl sampleCollaborators malformedDecl emptyProgram =
              (Panic (''unable to extract the return type from: '' @ '' (int)''),
               emptyProgram\<lparr>Function := None\<rparr>)"
    using t2 p2 p3 by blast
  note t4 = return_type_extraction
            [OF a2, where ws = "'' ''" and rest' = "''(int)''" and n = malformedDecl
               and s = ?tick and c = sampleCollaborators and earlier = "[tickDecl]"
               and ?s0.0 = emptyProgram and es = "[]" and later = "[mainDecl]"]
  have r4: "transpileRun sampleCollaborators ([tickDecl] @ malformedDecl # [mainDecl]) emptyProgram =
              (Aborted (''unable to extract the return type from: '' @ '' (int)''),
               ?tick\<lparr>Function := None\<rparr>)"
    using t4 p2 p4 run by blast
  show ?thesis
    using r1 r2 r3 r4 tick by (simp add: e cleared)
qed

end
